theory Spec2Isabelle
  imports Main "HOL-Library.Sublist"
begin

section \<open>Common ground: text, exceptions, Python values\<close>

text \<open>
  Python text is modelled by HOL strings. Command-line arguments, paths and file
  contents are sequences of characters with code points below 256. The three message
  constants of the scaffolder that hold CJK text stand here as their UTF-8 bytes.
\<close>

definition LF :: char where
  "LF = CHR 0x0A"

definition CR :: char where
  "CR = CHR 0x0D"

text \<open>
  The subclasses of \<open>OSError\<close> that the two programs can meet. \<open>except OSError\<close>
  catches each of them, \<open>except FileNotFoundError\<close> only the first.
\<close>

datatype os_kind = FileNotFound | FileExists | IsADirectory | NotADirectory | PermissionDenied

datatype exn =
    SystemExit nat
  | TypeError string
  | OSError os_kind string
  | NoSectionError string
  | NoOptionError string string

text \<open>
  \<open>str(e)\<close> of an \<open>OSError\<close>: the error number, its message and the \<open>repr\<close> of the file
  name. The exception carries that text.
\<close>

definition str_OSError :: "os_kind \<Rightarrow> string \<Rightarrow> string" where
  "str_OSError k filename_repr =
     (case k of
        FileNotFound \<Rightarrow> ''[Errno 2] No such file or directory: ''
      | IsADirectory \<Rightarrow> ''[Errno 21] Is a directory: ''
      | NotADirectory \<Rightarrow> ''[Errno 20] Not a directory: ''
      | PermissionDenied \<Rightarrow> ''[Errno 13] Permission denied: ''
      | FileExists \<Rightarrow> ''[Errno 17] File exists: '')
     @ filename_repr"

definition os_error :: "os_kind \<Rightarrow> string \<Rightarrow> exn" where
  "os_error k filename_repr = OSError k (str_OSError k filename_repr)"

text \<open>\<open>repr\<close> of a text without quotes or backslashes in it.\<close>

definition repr_str :: "string \<Rightarrow> string" where
  "repr_str s = [CHR 0x27] @ s @ [CHR 0x27]"

text \<open>The Python values a caller-supplied predicate may hand back.\<close>

datatype pyval =
    PyNone
  | PyBool bool
  | PyInt int
  | PyStr string
  | PyList "pyval list"

text \<open>\<open>isinstance(result, bool)\<close>: \<open>bool\<close> has no subclass, and an \<open>int\<close> is not a \<open>bool\<close>.\<close>

fun isinstance_bool :: "pyval \<Rightarrow> bool" where
  "isinstance_bool (PyBool b) = True"
| "isinstance_bool v = False"

text \<open>The truth value that \<open>if match_callback(line)\<close> takes of a result.\<close>

fun truthy :: "pyval \<Rightarrow> bool" where
  "truthy PyNone = False"
| "truthy (PyBool b) = b"
| "truthy (PyInt n) = (n \<noteq> 0)"
| "truthy (PyStr s) = (s \<noteq> [])"
| "truthy (PyList vs) = (vs \<noteq> [])"


subsection \<open>Text helpers of the Python library\<close>

text \<open>\<open>str.split(sep)\<close> for a one-character separator: never an empty list.\<close>

fun str_split :: "char \<Rightarrow> string \<Rightarrow> string list" where
  "str_split sep [] = [[]]"
| "str_split sep (c # cs) =
     (if c = sep then [] # str_split sep cs
      else (case str_split sep cs of
              [] \<Rightarrow> [[c]]
            | w # ws \<Rightarrow> (c # w) # ws))"

text \<open>\<open>sep.join(items)\<close>\<close>

fun str_join :: "string \<Rightarrow> string list \<Rightarrow> string" where
  "str_join sep [] = []"
| "str_join sep [x] = x"
| "str_join sep (x # y # ys) = x @ sep @ str_join sep (y # ys)"

text \<open>Decimal digits of a number, as \<open>str(n)\<close> and \<open>%d\<close> print them.\<close>

fun str_nat :: "nat \<Rightarrow> string" where
  "str_nat n =
     (if n < 10 then [char_of (48 + n)]
      else str_nat (n div 10) @ [char_of (48 + n mod 10)])"

declare str_nat.simps [simp del]


subsection \<open>\<open>pathlib\<close> on POSIX\<close>

text \<open>
  A pure POSIX path is its root (empty, \<open>/\<close> or \<open>//\<close>) and its components. Parsing
  drops empty components and \<open>.\<close>; exactly two leading slashes are kept as a root of
  their own.
\<close>

datatype posix_path = PosixPath (root: string) (parts: "string list")

definition Path :: "string \<Rightarrow> posix_path" where
  "Path s =
     PosixPath
       (if prefix ''//'' s \<and> \<not> prefix ''///'' s then ''//''
        else if prefix ''/'' s then ''/'' else [])
       (filter (\<lambda>x. x \<noteq> [] \<and> x \<noteq> ''.'') (str_split CHR ''/'' s))"

text \<open>\<open>str(path)\<close>, also what an f-string prints.\<close>

definition path_str :: "posix_path \<Rightarrow> string" where
  "path_str p =
     (if root p = [] \<and> parts p = [] then ''.''
      else root p @ str_join ''/'' (parts p))"

text \<open>\<open>path.joinpath(segment)\<close>: a rooted segment replaces the path.\<close>

definition joinpath :: "posix_path \<Rightarrow> string \<Rightarrow> posix_path" where
  "joinpath p segment =
     (let q = Path segment
      in if root q \<noteq> [] then q else PosixPath (root p) (parts p @ parts q))"

definition parent :: "posix_path \<Rightarrow> posix_path" where
  "parent p = PosixPath (root p) (butlast (parts p))"

text \<open>The path, its parent, and so on up to the root.\<close>

definition lineage :: "posix_path \<Rightarrow> posix_path list" where
  "lineage p = map (PosixPath (root p)) (prefixes (parts p))"

text \<open>\<open>q\<close> is \<open>p\<close> or lies beneath it.\<close>

definition beneath :: "posix_path \<Rightarrow> posix_path \<Rightarrow> bool" where
  "beneath p q = (root q = root p \<and> prefix (parts p) (parts q))"

subsection \<open>The file system\<close>

text \<open>
  The file system maps a path to what is there. Symbolic links and \<open>..\<close> are not
  modelled: two different paths are two different places.
\<close>

datatype node = Dir | File string

type_synonym fsys = "posix_path \<Rightarrow> node option"

text \<open>\<open>repr\<close> of a path object, as \<open>shutil\<close> puts it into its errors.\<close>

definition repr_PosixPath :: "posix_path \<Rightarrow> string" where
  "repr_PosixPath p = ''PosixPath('' @ repr_str (path_str p) @ '')''"

text \<open>
  Walking down to a file: every directory on the way has to be there. The first
  component that is missing or is a regular file stops the walk.
\<close>

fun resolve :: "fsys \<Rightarrow> posix_path list \<Rightarrow> os_kind option" where
  "resolve fs [] = None"
| "resolve fs (q # qs) =
     (case fs q of
        None \<Rightarrow> Some FileNotFound
      | Some (File t) \<Rightarrow> Some NotADirectory
      | Some Dir \<Rightarrow> resolve fs qs)"


section \<open>match-reader.py\<close>

subsection \<open>\<open>validate_bool\<close>\<close>

text \<open>
  A callable is its \<open>__name__\<close> and what a call does: it raises or returns a value.
  \<open>validate_bool(func)\<close> returns \<open>wrapper\<close>, to which \<open>functools.wraps\<close> gives the
  name of \<open>func\<close>.
\<close>

record 'a pyfunc =
  func_name :: string
  call :: "'a \<Rightarrow> exn + pyval"

definition wrapper :: "'a pyfunc \<Rightarrow> 'a \<Rightarrow> exn + pyval" where
  "wrapper func args =
     (case call func args of
        Inl e \<Rightarrow> Inl e
      | Inr result \<Rightarrow>
          if \<not> isinstance_bool result
          then Inl (TypeError (func_name func @ '' must return a boolean value.''))
          else Inr result)"

definition validate_bool :: "'a pyfunc \<Rightarrow> 'a pyfunc" where
  "validate_bool func = \<lparr>func_name = func_name func, call = wrapper func\<rparr>"


subsection \<open>\<open>read_lines\<close>\<close>

text \<open>
  \<open>open(file_path, 'r')\<close> opens in text mode with universal newlines: \<open>\r\n\<close> and a
  lone \<open>\r\<close> reach the program as \<open>\n\<close>.
\<close>

fun universal_newlines :: "string \<Rightarrow> string" where
  "universal_newlines [] = []"
| "universal_newlines [c] = (if c = CR then [LF] else [c])"
| "universal_newlines (c # d # cs) =
     (if c = CR \<and> d = LF then LF # universal_newlines cs
      else if c = CR then LF # universal_newlines (d # cs)
      else c # universal_newlines (d # cs))"

text \<open>
  \<open>for line in f\<close>: the text is cut after every \<open>\n\<close>; each line keeps its
  terminator, and a last line without one is delivered as it is.
\<close>

fun iter_lines :: "string \<Rightarrow> string list" where
  "iter_lines [] = []"
| "iter_lines (c # cs) =
     (if c = LF then [LF] # iter_lines cs
      else (case iter_lines cs of
              [] \<Rightarrow> [[c]]
            | l # ls \<Rightarrow> (c # l) # ls))"

text \<open>\<open>line[:-1] if '\n' in line else line\<close>\<close>

definition strip_line :: "string \<Rightarrow> string" where
  "strip_line line = (if LF \<in> set line then butlast line else line)"

text \<open>
  The list comprehension: the callback is called on every line in turn, on the line as
  the file delivers it; an exception of the callback leaves the comprehension.
\<close>

fun comprehension :: "(string \<Rightarrow> exn + pyval) \<Rightarrow> string list \<Rightarrow> exn + string list" where
  "comprehension match_callback [] = Inr []"
| "comprehension match_callback (line # rest) =
     (case match_callback line of
        Inl e \<Rightarrow> Inl e
      | Inr v \<Rightarrow>
          (case comprehension match_callback rest of
             Inl e \<Rightarrow> Inl e
           | Inr acc \<Rightarrow> Inr (if truthy v then strip_line line # acc else acc)))"

text \<open>
  \<open>open(file_path, 'r')\<close> over a file system: the raw text of the file, or the
  \<open>OSError\<close> that \<open>open\<close> raises. The empty path names nothing; a path that ends in a
  slash asks for a directory.
\<close>

definition open_text :: "fsys \<Rightarrow> string \<Rightarrow> exn + string" where
  "open_text fs file_path =
     (let p = Path file_path
      in if file_path = [] then Inl (os_error FileNotFound (repr_str file_path))
         else (case resolve fs (butlast (lineage p)) of
                 Some k \<Rightarrow> Inl (os_error k (repr_str file_path))
               | None \<Rightarrow>
                   (case fs p of
                      None \<Rightarrow> Inl (os_error FileNotFound (repr_str file_path))
                    | Some Dir \<Rightarrow> Inl (os_error IsADirectory (repr_str file_path))
                    | Some (File raw) \<Rightarrow>
                        if last file_path = CHR ''/''
                        then Inl (os_error NotADirectory (repr_str file_path))
                        else Inr raw)))"

text \<open>
  \<open>read_lines\<close>. The first argument is \<open>open\<close> as the program meets it: the raw text
  of the file, or the \<open>OSError\<close> raised. The \<open>try\<close> block holds the \<open>open\<close> and the list
  comprehension, so a \<open>FileNotFoundError\<close> from either is caught. The last argument and
  the second component of the result are the lines printed on standard output.
\<close>

definition read_lines ::
  "(string \<Rightarrow> exn + string) \<Rightarrow> string \<Rightarrow> (string \<Rightarrow> exn + pyval) \<Rightarrow> string list
     \<Rightarrow> (exn + string list option) \<times> string list" where
  "read_lines open_r file_path match_callback out =
     (case (case open_r file_path of
              Inl e \<Rightarrow> Inl e
            | Inr raw \<Rightarrow> comprehension match_callback (iter_lines (universal_newlines raw))) of
        Inr ls \<Rightarrow> (Inr (Some ls), out)
      | Inl (OSError FileNotFound m) \<Rightarrow>
          (Inr None, out @ [''File '' @ [CHR 0x27] @ file_path @ [CHR 0x27] @ '' not found.''])
      | Inl e \<Rightarrow> (Inl e, out))"

text \<open>The default of \<open>match_callback\<close>: \<open>lambda line: True\<close>.\<close>

definition default_callback :: "string \<Rightarrow> exn + pyval" where
  "default_callback line = Inr (PyBool True)"

definition read_lines_default ::
  "(string \<Rightarrow> exn + string) \<Rightarrow> string \<Rightarrow> string list
     \<Rightarrow> (exn + string list option) \<times> string list" where
  "read_lines_default open_r file_path out = read_lines open_r file_path default_callback out"

text \<open>
  The reading of "trailing newline removed if present" that does not look inside the
  line: only a final \<open>\n\<close> goes.
\<close>

definition chomp :: "string \<Rightarrow> string" where
  "chomp s = (if s \<noteq> [] \<and> last s = LF then butlast s else s)"

text \<open>
  What the specification promises of \<open>read_lines\<close>, in its own words: the lines of the
  file with the trailing newline stripped, keeping a line exactly when the predicate is
  true of it.
\<close>

definition claimed_lines :: "string \<Rightarrow> (string \<Rightarrow> bool) \<Rightarrow> string list" where
  "claimed_lines raw P = filter P (map chomp (iter_lines (universal_newlines raw)))"



section \<open>vscode-project.py\<close>

subsection \<open>Constants\<close>

definition ARGS_PROJECT_HELP :: string where
  "ARGS_PROJECT_HELP =
     [CHR 0xE9, CHR 0x9C, CHR 0x80, CHR 0xE8, CHR 0xA6, CHR 0x81, CHR 0xE5, CHR 0x88,
      CHR 0x9B, CHR 0xE5, CHR 0xBB, CHR 0xBA, CHR 0xE7, CHR 0x9A, CHR 0x84, CHR 0xE9,
      CHR 0xA1, CHR 0xB9, CHR 0xE7, CHR 0x9B, CHR 0xAE, CHR 0xE5, CHR 0x90, CHR 0x8D,
      CHR 0xE7, CHR 0xA7, CHR 0xB0, CHR 0xE6, CHR 0x88, CHR 0x96, CHR 0xE9, CHR 0xA1,
      CHR 0xB9, CHR 0xE7, CHR 0x9B, CHR 0xAE, CHR 0xE5, CHR 0x9C, CHR 0xB0, CHR 0xE5,
      CHR 0x9D, CHR 0x80, CHR 0xE9, CHR 0x93, CHR 0xBE, CHR 0xE6, CHR 0x8E, CHR 0xA5]"

definition CONFIG_FILE :: string where
  "CONFIG_FILE = ''config.ini''"

definition CONFIG_ERROR_MSG :: "string \<Rightarrow> string" where
  "CONFIG_ERROR_MSG e =
     [CHR 0xE9, CHR 0x85, CHR 0x8D, CHR 0xE7, CHR 0xBD, CHR 0xAE, CHR 0xE6, CHR 0x96,
      CHR 0x87, CHR 0xE4, CHR 0xBB, CHR 0xB6, CHR 0xE8, CHR 0xA7, CHR 0xA3, CHR 0xE6,
      CHR 0x9E, CHR 0x90, CHR 0xE9, CHR 0x94, CHR 0x99, CHR 0xE8, CHR 0xAF, CHR 0xAF,
      CHR 0x3A, CHR 0x20] @ e"

definition CONFIG_CORE :: string where
  "CONFIG_CORE = ''core''"

definition CONFIG_CORE_REPOSITORY :: string where
  "CONFIG_CORE_REPOSITORY = ''repository''"

definition CONFIG_CORE_WORKSPACE :: string where
  "CONFIG_CORE_WORKSPACE = ''workspace''"

definition PROJECT_EXISTS_ERROR_MSG :: "string \<Rightarrow> string" where
  "PROJECT_EXISTS_ERROR_MSG x =
     [CHR 0xE9, CHR 0xA1, CHR 0xB9, CHR 0xE7, CHR 0x9B, CHR 0xAE, CHR 0x20] @ x @
     [CHR 0x20, CHR 0xE5, CHR 0xB7, CHR 0xB2, CHR 0xE5, CHR 0xAD, CHR 0x98, CHR 0xE5,
      CHR 0x9C, CHR 0xA8]"

definition FILE_NOT_FOUND_ERROR_MSG :: "string \<Rightarrow> string" where
  "FILE_NOT_FOUND_ERROR_MSG x =
     [CHR 0xE4, CHR 0xB8, CHR 0x8D, CHR 0xE5, CHR 0xAD, CHR 0x98, CHR 0xE5, CHR 0x9C,
      CHR 0xA8, CHR 0x20] @ x"

subsection \<open>The two patterns\<close>

text \<open>
  \<open>ARGS_PROJECT_NAME_PATTERN = ^[a-zA-Z0-9-_]+$\<close>: in the class, the \<open>-\<close> after the
  range \<open>0-9\<close> is a literal. \<open>$\<close> matches at the end of the text and also just before
  a newline that ends it, so the body of a match is the text without one final newline.
\<close>

definition name_char :: "char \<Rightarrow> bool" where
  "name_char c =
     (let n = (of_char c :: nat)
      in (97 \<le> n \<and> n \<le> 122) \<or> (65 \<le> n \<and> n \<le> 90) \<or> (48 \<le> n \<and> n \<le> 57)
         \<or> c = CHR ''-'' \<or> c = CHR ''_'')"

definition match_name_pattern :: "string \<Rightarrow> bool" where
  "match_name_pattern s = (let body = chomp s in body \<noteq> [] \<and> list_all name_char body)"

text \<open>
  \<open>\s\<close> on text: the ASCII white space of Python (\<open>\t\n\v\f\r\<close>, the separators
  \<open>0x1C\<close> to \<open>0x1F\<close>, the blank) and, below 256, \<open>0x85\<close> and \<open>0xA0\<close>.
\<close>

definition is_space :: "char \<Rightarrow> bool" where
  "is_space c =
     (let n = (of_char c :: nat)
      in (9 \<le> n \<and> n \<le> 13) \<or> (28 \<le> n \<and> n \<le> 32) \<or> n = 133 \<or> n = 160)"

text \<open>\<open>ARGS_PROJECT_URL_PATTERN = ^(http://|https://|git://)[^\s]+$\<close>\<close>

definition match_url_pattern :: "string \<Rightarrow> bool" where
  "match_url_pattern s =
     list_ex
       (\<lambda>scheme. prefix scheme s \<and>
          (let body = chomp (drop (length scheme) s)
           in body \<noteq> [] \<and> list_all (\<lambda>c. \<not> is_space c) body))
       [''http://'', ''https://'', ''git://'']"

subsection \<open>The world of one run\<close>

text \<open>Every call into the file system is recorded, reads as well as writes.\<close>

datatype fs_call =
    Exists posix_path
  | ReadText posix_path
  | Mkdir posix_path
  | Touch posix_path
  | OpenW posix_path
  | Rmtree posix_path
  | Unlink posix_path

record world =
  files :: fsys
  logged :: "string list"
  printed :: "string list"
  commands :: "string list"
  calls :: "fs_call list"

text \<open>
  \<open>configparser.ConfigParser\<close> after \<open>read\<close>: sections of options. \<open>get\<close> raises for a
  missing section or option.
\<close>

type_synonym config = "string \<Rightarrow> (string \<Rightarrow> string option) option"

definition config_get :: "config \<Rightarrow> string \<Rightarrow> string \<Rightarrow> exn + string" where
  "config_get config section option =
     (case config section of
        None \<Rightarrow> Inl (NoSectionError section)
      | Some opts \<Rightarrow>
          (case opts option of
             None \<Rightarrow> Inl (NoOptionError option section)
           | Some v \<Rightarrow> Inr v))"

text \<open>
  What the program does not decide: where the script lies (\<open>Path(__file__).parent\<close>),
  what \<open>configparser\<close> makes of the text of the configuration file (a
  \<open>configparser.Error\<close>, as text, or the sections), what a shell command does to the file
  system and its exit status, which calls the operating system refuses for lack of
  permission, and where the removal of a directory tree cannot go on: the \<open>OSError\<close>
  raised there, by kind and text, and the paths removed by then.
\<close>

record os =
  script_dir :: posix_path
  parse_ini :: "string \<Rightarrow> string + config"
  shell :: "string \<Rightarrow> fsys \<Rightarrow> fsys \<times> nat"
  refuses :: "fs_call \<Rightarrow> bool"
  rmtree_stops :: "fsys \<Rightarrow> posix_path \<Rightarrow> ((os_kind \<times> string) \<times> posix_path list) option"

text \<open>A statement runs in a world; it raises or returns a value, and leaves a world.\<close>

type_synonym 'a prog = "world \<Rightarrow> (exn + 'a) \<times> world"

definition return :: "'a \<Rightarrow> 'a prog" where
  "return x w = (Inr x, w)"

text \<open>An expression that raises or gives a value, and leaves the world alone.\<close>

definition lift :: "exn + 'a \<Rightarrow> 'a prog" where
  "lift r w = (r, w)"

text \<open>One statement after another: an exception skips what follows.\<close>

definition bind :: "'a prog \<Rightarrow> ('a \<Rightarrow> 'b prog) \<Rightarrow> 'b prog" where
  "bind m f w = (case m w of (Inl e, w') \<Rightarrow> (Inl e, w') | (Inr x, w') \<Rightarrow> f x w')"

text \<open>\<open>try: body  except OSError as e: handler(str(e))\<close>\<close>

definition except_OSError :: "unit prog \<Rightarrow> (string \<Rightarrow> unit prog) \<Rightarrow> unit prog" where
  "except_OSError body handler w =
     (case body w of
        (Inl (OSError k str_e), w') \<Rightarrow> handler str_e w'
      | r \<Rightarrow> r)"

text \<open>The exit status of the process: an uncaught exception other than \<open>SystemExit\<close> gives 1.\<close>

fun exit_status :: "exn + unit \<Rightarrow> nat" where
  "exit_status (Inr u) = 0"
| "exit_status (Inl (SystemExit n)) = n"
| "exit_status (Inl e) = 1"

subsection \<open>File-system calls\<close>

definition note_call :: "fs_call \<Rightarrow> world \<Rightarrow> world" where
  "note_call c w = w\<lparr>calls := calls w @ [c]\<rparr>"

text \<open>\<open>path.exists()\<close>\<close>

definition path_exists :: "posix_path \<Rightarrow> bool prog" where
  "path_exists p w = (Inr (files w p \<noteq> None), note_call (Exists p) w)"

text \<open>
  \<open>path.mkdir(parents=True, exist_ok=True)\<close>: the directory and every missing ancestor.
\<close>

definition mkdir_parents :: "os \<Rightarrow> posix_path \<Rightarrow> unit prog" where
  "mkdir_parents os p w =
     (let w' = note_call (Mkdir p) w
      in if refuses os (Mkdir p) then (Inl (os_error PermissionDenied (repr_str (path_str p))), w')
         else if list_ex (\<lambda>q. case files w q of Some (File t) \<Rightarrow> True | _ \<Rightarrow> False) (lineage p)
         then (Inl (os_error (if files w p = None then NotADirectory else FileExists)
                      (repr_str (path_str p))), w')
         else (Inr (), w'\<lparr>files := (\<lambda>q. if q \<in> set (lineage p) then Some Dir else files w q)\<rparr>))"

text \<open>
  \<open>path.touch()\<close>: an empty file where there is nothing; what exists is left as it is.
  The path resolves only if the directory that holds it is there.
\<close>

definition touch :: "os \<Rightarrow> posix_path \<Rightarrow> unit prog" where
  "touch os p w =
     (let w' = note_call (Touch p) w
      in if refuses os (Touch p) then (Inl (os_error PermissionDenied (repr_str (path_str p))), w')
         else (case files w (parent p) of
                 None \<Rightarrow> (Inl (os_error FileNotFound (repr_str (path_str p))), w')
               | Some (File t) \<Rightarrow> (Inl (os_error NotADirectory (repr_str (path_str p))), w')
               | Some Dir \<Rightarrow>
                   if files w p \<noteq> None then (Inr (), w')
                   else (Inr (), w'\<lparr>files := (files w)(p \<mapsto> File [])\<rparr>)))"

text \<open>
  \<open>with path.open(mode='w') as f: f.write(text)\<close>: the file is created or truncated,
  then holds \<open>text\<close>.
\<close>

definition write_text :: "os \<Rightarrow> posix_path \<Rightarrow> string \<Rightarrow> unit prog" where
  "write_text os p text w =
     (let w' = note_call (OpenW p) w
      in if refuses os (OpenW p) then (Inl (os_error PermissionDenied (repr_str (path_str p))), w')
         else (case files w (parent p) of
                 None \<Rightarrow> (Inl (os_error FileNotFound (repr_str (path_str p))), w')
               | Some (File t) \<Rightarrow> (Inl (os_error NotADirectory (repr_str (path_str p))), w')
               | Some Dir \<Rightarrow>
                   (case files w p of
                      Some Dir \<Rightarrow> (Inl (os_error IsADirectory (repr_str (path_str p))), w')
                    | _ \<Rightarrow> (Inr (), w'\<lparr>files := (files w)(p \<mapsto> File text)\<rparr>))))"

text \<open>
  \<open>shutil.rmtree(path)\<close>: the directory and all beneath it. On what is not a
  directory it raises at once, naming the path object. Where the removal cannot go on,
  what was removed before stays removed, the directory itself stays, and the error is
  the one of the call that failed.
\<close>

definition rmtree :: "os \<Rightarrow> posix_path \<Rightarrow> unit prog" where
  "rmtree os p w =
     (let w' = note_call (Rmtree p) w
      in case files w p of
           None \<Rightarrow> (Inl (os_error FileNotFound (repr_str (path_str p))), w')
         | Some (File t) \<Rightarrow> (Inl (os_error NotADirectory (repr_PosixPath p)), w')
         | Some Dir \<Rightarrow>
             (case rmtree_stops os (files w) p of
                Some ((k, str_e), removed) \<Rightarrow>
                  (Inl (OSError k str_e),
                   w'\<lparr>files := (\<lambda>q. if q \<in> set removed \<and> beneath p q \<and> q \<noteq> p then None
                                     else files w q)\<rparr>)
              | None \<Rightarrow>
                  (Inr (), w'\<lparr>files := (\<lambda>q. if beneath p q then None else files w q)\<rparr>)))"

text \<open>\<open>path.unlink()\<close>\<close>

definition unlink :: "os \<Rightarrow> posix_path \<Rightarrow> unit prog" where
  "unlink os p w =
     (let w' = note_call (Unlink p) w
      in if refuses os (Unlink p) then (Inl (os_error PermissionDenied (repr_str (path_str p))), w')
         else (case files w p of
                 None \<Rightarrow> (Inl (os_error FileNotFound (repr_str (path_str p))), w')
               | Some Dir \<Rightarrow> (Inl (os_error IsADirectory (repr_str (path_str p))), w')
               | Some (File t) \<Rightarrow> (Inr (), w'\<lparr>files := (files w)(p := None)\<rparr>)))"

text \<open>
  \<open>config.read(path)\<close>: a file that cannot be opened is passed over in silence and
  leaves the parser empty; a text that does not parse raises \<open>configparser.Error\<close>,
  given here as \<open>Inl\<close> of its text.
\<close>

definition config_read :: "os \<Rightarrow> posix_path \<Rightarrow> (string + config) prog" where
  "config_read os p w =
     (let w' = note_call (ReadText p) w
      in case files w p of
           Some (File text) \<Rightarrow> (Inr (parse_ini os text), w')
         | _ \<Rightarrow> (Inr (Inr (\<lambda>section. None)), w'))"


subsection \<open>\<open>json.dump(data, f, indent=4)\<close>\<close>

text \<open>The JSON documents the program builds: strings, lists, and dictionaries in insertion order.\<close>

datatype json = JStr string | JArr "json list" | JObj "(string \<times> json) list"

definition hex_digit :: "nat \<Rightarrow> char" where
  "hex_digit d = (if d < 10 then char_of (48 + d) else char_of (87 + d))"

text \<open>
  \<open>ensure_ascii\<close> is on: everything outside \<open>' '\<close> to \<open>'~'\<close>, and the quote and the
  backslash, is escaped.
\<close>

definition json_escape :: "char \<Rightarrow> string" where
  "json_escape c =
     (let n = (of_char c :: nat)
      in if c = CHR 0x5C then [CHR 0x5C, CHR 0x5C]
         else if c = CHR 0x22 then [CHR 0x5C, CHR 0x22]
         else if n = 8 then [CHR 0x5C, CHR ''b'']
         else if n = 12 then [CHR 0x5C, CHR ''f'']
         else if n = 10 then [CHR 0x5C, CHR ''n'']
         else if n = 13 then [CHR 0x5C, CHR ''r'']
         else if n = 9 then [CHR 0x5C, CHR ''t'']
         else if 32 \<le> n \<and> n \<le> 126 then [c]
         else [CHR 0x5C, CHR ''u'', CHR ''0'', CHR ''0'', hex_digit (n div 16), hex_digit (n mod 16)])"

definition json_string :: "string \<Rightarrow> string" where
  "json_string s = [CHR 0x22] @ concat (map json_escape s) @ [CHR 0x22]"

definition newline_indent :: "nat \<Rightarrow> nat \<Rightarrow> string" where
  "newline_indent indent level = LF # replicate (indent * level) CHR '' ''"

text \<open>
  The encoder at nesting depth \<open>level\<close>: items on lines of their own, separated by a
  comma, a key and its value by \<open>: \<close>; an empty container is written closed.
\<close>

fun json_encode :: "nat \<Rightarrow> nat \<Rightarrow> json \<Rightarrow> string" where
  "json_encode indent level (JStr s) = json_string s"
| "json_encode indent level (JArr items) =
     (if items = [] then ''[]''
      else ''['' @ newline_indent indent (Suc level)
           @ str_join ('','' @ newline_indent indent (Suc level))
               (map (json_encode indent (Suc level)) items)
           @ newline_indent indent level @ '']'')"
| "json_encode indent level (JObj members) =
     (if members = [] then ''{}''
      else ''{'' @ newline_indent indent (Suc level)
           @ str_join ('','' @ newline_indent indent (Suc level))
               (map (\<lambda>kv. json_string (fst kv) @ '': '' @ json_encode indent (Suc level) (snd kv))
                  members)
           @ newline_indent indent level @ ''}'')"

definition json_dump_indent4 :: "json \<Rightarrow> string" where
  "json_dump_indent4 data = json_encode 4 0 data"

text \<open>
  The same document on one line, without white space, the way the specification writes
  a descriptor down.
\<close>

fun json_compact :: "json \<Rightarrow> string" where
  "json_compact (JStr s) = json_string s"
| "json_compact (JArr items) = ''['' @ str_join '','' (map json_compact items) @ '']''"
| "json_compact (JObj members) =
     ''{'' @ str_join '',''
              (map (\<lambda>kv. json_string (fst kv) @ '':'' @ json_compact (snd kv)) members)
     @ ''}''"

subsection \<open>The functions of the script\<close>

text \<open>\<open>error_exit(msg)\<close>: \<open>logger.error(msg)\<close>, then \<open>exit(1)\<close> raises \<open>SystemExit(1)\<close>.\<close>

definition error_exit :: "string \<Rightarrow> 'a prog" where
  "error_exit msg w = (Inl (SystemExit 1), w\<lparr>logged := logged w @ [msg]\<rparr>)"

text \<open>\<open>print_action(msg)\<close>: \<open>logger.error(msg)\<close>\<close>

definition print_action :: "string \<Rightarrow> unit prog" where
  "print_action msg w = (Inr (), w\<lparr>logged := logged w @ [msg]\<rparr>)"

text \<open>
  \<open>execute_command(command)\<close>: \<open>subprocess.run(command, shell=True, check=True)\<close>
  raises \<open>CalledProcessError\<close> on an exit status other than 0; it is caught and printed.
\<close>

definition str_CalledProcessError :: "string \<Rightarrow> nat \<Rightarrow> string" where
  "str_CalledProcessError command status =
     ''Command '' @ [CHR 0x27] @ command @ [CHR 0x27]
     @ '' returned non-zero exit status '' @ str_nat status @ ''.''"

definition execute_command :: "os \<Rightarrow> string \<Rightarrow> unit prog" where
  "execute_command os command w =
     (let (fs', status) = shell os command (files w);
          w' = w\<lparr>files := fs', commands := commands w @ [command]\<rparr>
      in if status \<noteq> 0
         then (Inr (), w'\<lparr>printed := printed w' @
                 [''Command execution failed: '' @ str_CalledProcessError command status]\<rparr>)
         else (Inr (), w'))"

definition read_config :: "os \<Rightarrow> config prog" where
  "read_config os =
     (let config_path = joinpath (script_dir os) CONFIG_FILE
      in bind (path_exists config_path) (\<lambda>found.
         bind (if \<not> found then error_exit (FILE_NOT_FOUND_ERROR_MSG (path_str config_path))
               else return ()) (\<lambda>_.
         bind (config_read os config_path) (\<lambda>parsed.
           case parsed of
             Inr config \<Rightarrow> return config
           | Inl e \<Rightarrow> error_exit (CONFIG_ERROR_MSG e)))))"

text \<open>Lines 90 to 92 of \<open>create_project\<close>: the name that the rest of the function uses.\<close>

definition project_name :: "string \<Rightarrow> bool \<Rightarrow> string" where
  "project_name name is_clone =
     (if is_clone
      then (let link = name in hd (str_split CHR ''.'' (last (str_split CHR ''/'' link))))
      else name)"

definition workspace_data :: "posix_path \<Rightarrow> string \<Rightarrow> json" where
  "workspace_data project_dir name =
     JObj [(''folders'', JArr [JObj [(''path'', JStr (path_str project_dir)),
                                      (''name'', JStr name)]])]"

definition create_project :: "os \<Rightarrow> string \<Rightarrow> config \<Rightarrow> bool \<Rightarrow> unit prog" where
  "create_project os name0 config is_clone =
     (let link = name0;
          name = project_name name0 is_clone
      in bind (lift (config_get config CONFIG_CORE CONFIG_CORE_REPOSITORY)) (\<lambda>repository.
         bind (lift (config_get config CONFIG_CORE CONFIG_CORE_WORKSPACE)) (\<lambda>workspace.
           let directory_path = Path repository;
               workspace_path = Path workspace;
               project_dir = joinpath directory_path name;
               workspace_file = joinpath workspace_path (name @ ''.code-workspace'')
           in bind (path_exists project_dir) (\<lambda>found.
              bind (if \<not> found
                    then (if \<not> is_clone
                          then bind (mkdir_parents os project_dir) (\<lambda>_.
                               bind (execute_command os (''git init '' @ path_str project_dir)) (\<lambda>_.
                               bind (touch os (joinpath project_dir ''README.md'')) (\<lambda>_.
                               touch os (joinpath project_dir ''.gitignore''))))
                          else execute_command os
                                 (''git clone '' @ link @ '' '' @ path_str project_dir))
                    else error_exit (PROJECT_EXISTS_ERROR_MSG name)) (\<lambda>_.
              bind (write_text os workspace_file
                      (json_dump_indent4 (workspace_data project_dir name))) (\<lambda>_.
              bind (print_action (''add + '' @ path_str project_dir)) (\<lambda>_.
              print_action (''add + '' @ path_str workspace_file))))))))"

definition clean_project :: "os \<Rightarrow> string \<Rightarrow> config \<Rightarrow> unit prog" where
  "clean_project os name config =
     bind (lift (config_get config CONFIG_CORE CONFIG_CORE_REPOSITORY)) (\<lambda>repository.
     bind (lift (config_get config CONFIG_CORE CONFIG_CORE_WORKSPACE)) (\<lambda>workspace.
       let directory_path = Path repository;
           workspace_path = Path workspace;
           project_dir = joinpath directory_path name;
           workspace_file = joinpath workspace_path (name @ ''.code-workspace'')
       in bind (path_exists project_dir) (\<lambda>dir_found.
          bind (if \<not> dir_found
                then bind (path_exists workspace_file) (\<lambda>file_found. return (\<not> file_found))
                else return False) (\<lambda>neither.
          bind (if neither then error_exit (FILE_NOT_FOUND_ERROR_MSG name) else return ()) (\<lambda>_.
          bind (path_exists project_dir) (\<lambda>dir_found.
          bind (if dir_found
                then except_OSError (rmtree os project_dir)
                       (\<lambda>e. error_exit (''NOT clean '' @ [CHR 0x22] @ name @ [CHR 0x22]
                                        @ '': '' @ e))
                else return ()) (\<lambda>_.
          bind (path_exists workspace_file) (\<lambda>file_found.
          bind (if file_found
                then except_OSError (unlink os workspace_file)
                       (\<lambda>e. error_exit (''NOT clean '' @ [CHR 0x22] @ path_str workspace_file
                                        @ [CHR 0x22] @ '': '' @ e))
                else return ()) (\<lambda>_.
          bind (print_action (''clean - '' @ path_str project_dir)) (\<lambda>_.
          print_action (''clean - '' @ path_str workspace_file)))))))))))"

text \<open>
  \<open>main\<close>, after \<open>argparse\<close> has delivered the positional argument and the \<open>--clean\<close>
  flag.
\<close>

definition main :: "os \<Rightarrow> string \<Rightarrow> bool \<Rightarrow> unit prog" where
  "main os args_project clean =
     bind (read_config os) (\<lambda>config.
       if clean
       then (if match_name_pattern args_project
             then clean_project os args_project config
             else error_exit (''error '' @ args_project @ '': '' @ ARGS_PROJECT_HELP))
       else (if match_name_pattern args_project
             then create_project os args_project config False
             else if match_url_pattern args_project
             then create_project os args_project config True
             else error_exit (args_project @ '': '' @ ARGS_PROJECT_HELP)))"

subsection \<open>The project name in the words of the specification\<close>

text \<open>"The URL's final path segment": what follows the last slash.\<close>

definition final_segment :: "string \<Rightarrow> string" where
  "final_segment link = rev (takeWhile (\<lambda>c. c \<noteq> CHR ''/'') (rev link))"

text \<open>"Strip any file extension": the extension is the last dot and what follows it.\<close>

definition strip_extension :: "string \<Rightarrow> string" where
  "strip_extension seg =
     (if CHR ''.'' \<in> set seg then rev (tl (dropWhile (\<lambda>c. c \<noteq> CHR ''.'') (rev seg)))
      else seg)"

definition spec_project_name :: "string \<Rightarrow> string" where
  "spec_project_name link = strip_extension (final_segment link)"

subsection \<open>Sample runs\<close>

text \<open>
  A configuration with repository root \<open>/r\<close> and workspace root \<open>/w\<close>, an operating
  system that refuses nothing and whose shell commands succeed without effect, and the
  world at the start of a run over a given file system.
\<close>

definition sample_config :: config where
  "sample_config =
     (\<lambda>section. None)(''core'' \<mapsto>
        (\<lambda>option. None)(''repository'' \<mapsto> ''/r'', ''workspace'' \<mapsto> ''/w''))"

definition sample_os :: os where
  "sample_os =
     \<lparr>script_dir = PosixPath ''/'' [''app''],
      parse_ini = (\<lambda>text. Inr sample_config),
      shell = (\<lambda>command fs. (fs, 0)),
      refuses = (\<lambda>c. False),
      rmtree_stops = (\<lambda>fs p. None)\<rparr>"

definition start :: "fsys \<Rightarrow> world" where
  "start fs = \<lparr>files = fs, logged = [], printed = [], commands = [], calls = []\<rparr>"

text \<open>The two roots exist; \<open>/app/config.ini\<close> is there; nothing else.\<close>

definition roots_only :: fsys where
  "roots_only =
     (\<lambda>p. None)(PosixPath ''/'' [] \<mapsto> Dir,
                 PosixPath ''/'' [''r''] \<mapsto> Dir, PosixPath ''/'' [''w''] \<mapsto> Dir,
                 PosixPath ''/'' [''app''] \<mapsto> Dir,
                 PosixPath ''/'' [''app'', ''config.ini''] \<mapsto> File ''[core]'')"

text \<open>Project \<open>foo\<close> is there in full: its directory and its descriptor.\<close>

definition foo_present :: fsys where
  "foo_present =
     roots_only(PosixPath ''/'' [''r'', ''foo''] \<mapsto> Dir,
                PosixPath ''/'' [''w'', ''foo.code-workspace''] \<mapsto> File ''{}'')"

text \<open>Only the descriptor of \<open>foo\<close> is left.\<close>

definition foo_descriptor_only :: fsys where
  "foo_descriptor_only =
     roots_only(PosixPath ''/'' [''w'', ''foo.code-workspace''] \<mapsto> File ''{}'')"


definition guarding_os :: os where
  "guarding_os =
     sample_os\<lparr>rmtree_stops :=
       (\<lambda>fs p. if p = PosixPath ''/'' [''r'', ''foo'']
               then Some ((PermissionDenied,
                           str_OSError PermissionDenied (repr_str ''locked.txt'')),
                          [PosixPath ''/'' [''r'', ''foo'', ''a.txt'']])
               else None)\<rparr>"

text \<open>An operating system on which every shell command fails with status 128.\<close>

definition failing_shell_os :: os where
  "failing_shell_os = sample_os\<lparr>shell := (\<lambda>command fs. (fs, 128))\<rparr>"

text \<open>
  A file system with the file \<open>/notes.txt\<close> of three lines, the last one without a
  terminator, and a predicate that holds of the text \<open>a\<close> alone.
\<close>

definition notes_fs :: fsys where
  "notes_fs =
     (\<lambda>p. None)(PosixPath ''/'' [] \<mapsto> Dir,
                 PosixPath ''/'' [''notes.txt''] \<mapsto>
                   File [CHR ''a'', LF, CHR ''b'', LF, CHR ''a''])"

definition is_a :: "string \<Rightarrow> bool" where
  "is_a line = (line = ''a'')"

definition is_a_callback :: "string \<Rightarrow> exn + pyval" where
  "is_a_callback line = Inr (PyBool (is_a line))"


section \<open>Properties of the line filter\<close>

subsection \<open>Lines of a text\<close>

lemma iter_lines_concat: "concat (iter_lines t) = t"
  by (induction t) (auto split: list.splits)

lemma iter_lines_inner: "l \<in> set (iter_lines t) \<Longrightarrow> l \<noteq> [] \<and> LF \<notin> set (butlast l)"
proof (induction t arbitrary: l)
  case Nil
  then show ?case by simp
next
  case (Cons c cs)
  then show ?case
    by (auto split: if_splits list.splits)
qed

text \<open>
  On a line that the file delivers, the test \<open>'\n' in line\<close> of the source finds the
  terminator and nothing else.
\<close>

lemma strip_line_chomp:
  assumes "l \<noteq> []" "LF \<notin> set (butlast l)"
  shows "strip_line l = chomp l"
proof (cases "last l = LF")
  case True
  then have "LF \<in> set l" using assms(1) last_in_set by metis
  with True assms show ?thesis by (simp add: strip_line_def chomp_def)
next
  case False
  have "l = butlast l @ [last l]" using assms(1) by simp
  then have "set l = set (butlast l) \<union> {last l}"
    by (metis list.set(1) list.simps(15) set_append)
  with False assms show ?thesis by (auto simp: strip_line_def chomp_def)
qed

lemma map_strip_chomp:
  "map strip_line (filter P (iter_lines t)) = map chomp (filter P (iter_lines t))"
  by (rule map_cong) (auto dest: iter_lines_inner intro: strip_line_chomp)

text \<open>
  The stripped lines are the lines of the text: put back with a terminator each, they
  give the text, up to the terminator that a last line may lack.
\<close>

lemma iter_lines_rejoin:
  "concat (map (\<lambda>r. chomp r @ [LF]) (iter_lines t)) =
     (if t = [] \<or> last t = LF then t else t @ [LF])"
proof (induction t)
  case Nil
  then show ?case by simp
next
  case (Cons c cs)
  show ?case
  proof (cases "c = LF")
    case True
    then show ?thesis using Cons by (auto simp: chomp_def)
  next
    case False
    show ?thesis
    proof (cases "iter_lines cs")
      case Nil
      then have "cs = []" by (cases cs) (auto split: if_splits list.splits)
      with False show ?thesis by (simp add: chomp_def)
    next
      case (Cons l ls)
      then have cs: "cs \<noteq> []" by auto
      have l: "l \<noteq> []" using Cons iter_lines_inner[of l cs] by simp
      then have "chomp (c # l) = c # chomp l" by (auto simp: chomp_def)
      then show ?thesis using Cons.IH Cons cs False by auto
    qed
  qed
qed

lemma comprehension_bool:
  assumes "\<And>line. line \<in> set ls \<Longrightarrow> cb line = Inr (PyBool (P line))"
  shows "comprehension cb ls = Inr (map strip_line (filter P ls))"
  using assms by (induction ls) auto

text \<open>
  A predicate that does not look at the terminator can as well be asked about the
  stripped lines.
\<close>

lemma filter_blind_to_terminator:
  "map chomp (filter (\<lambda>l. Q (chomp l)) ls) = filter Q (map chomp ls)"
  by (simp add: filter_map comp_def)

subsection \<open>\<open>read_lines\<close>\<close>

text \<open>
  Claim C1, as stated, fails. The file \<open>/notes.txt\<close> holds the lines \<open>a\<close>, \<open>b\<close>, \<open>a\<close>,
  the last without a newline, and the predicate holds of the text \<open>a\<close> alone. Of the
  stripped lines it keeps two; \<open>read_lines\<close> returns one, because it asks the
  predicate about the first line with its newline.
\<close>

theorem read_lines_counterexample:
  "open_text notes_fs ''/notes.txt'' = Inr [CHR ''a'', LF, CHR ''b'', LF, CHR ''a'']
   \<and> claimed_lines [CHR ''a'', LF, CHR ''b'', LF, CHR ''a''] is_a = [''a'', ''a'']
   \<and> read_lines (open_text notes_fs) ''/notes.txt'' is_a_callback [] = (Inr (Some [''a'']), [])"
  by (simp add: open_text_def notes_fs_def Path_def lineage_def claimed_lines_def chomp_def
        is_a_def is_a_callback_def read_lines_def strip_line_def LF_def CR_def)

text \<open>
  Claim C1, amended. For a file that \<open>open\<close> delivers and a predicate \<open>P\<close> (a callback
  that returns the boolean \<open>P line\<close> on every line), \<open>read_lines\<close> returns the lines of
  the file in file order, each without its trailing newline, keeping a line exactly
  when \<open>P\<close> is true of the line as the file delivers it, its trailing newline
  included. Without a predicate, every line is returned. Nothing is printed.
\<close>

theorem read_lines_filters:
  assumes "open_r file_path = Inr raw"
    and "\<And>line. match_callback line = Inr (PyBool (P line))"
  shows "read_lines open_r file_path match_callback out =
           (Inr (Some (map chomp (filter P (iter_lines (universal_newlines raw))))), out)
       \<and> read_lines_default open_r file_path out =
           (Inr (Some (map chomp (iter_lines (universal_newlines raw)))), out)"
proof -
  let ?ls = "iter_lines (universal_newlines raw)"
  have "comprehension match_callback ?ls = Inr (map strip_line (filter P ?ls))"
    by (rule comprehension_bool) (rule assms(2))
  then have a: "comprehension match_callback ?ls = Inr (map chomp (filter P ?ls))"
    by (simp only: map_strip_chomp)
  have "comprehension default_callback ?ls = Inr (map strip_line (filter (\<lambda>l. True) ?ls))"
    by (rule comprehension_bool) (simp add: default_callback_def)
  then have b: "comprehension default_callback ?ls = Inr (map chomp ?ls)"
    using map_strip_chomp[of "\<lambda>l. True" "universal_newlines raw"] by simp
  show ?thesis
    using assms(1) a b by (simp add: read_lines_def read_lines_default_def)
qed

theorem read_lines_filters_witness:
  "read_lines (\<lambda>p. Inr [CHR ''a'', CHR ''b'', CR, LF, CHR ''c'', LF, CHR ''a''])
      ''notes.txt'' (\<lambda>line. Inr (PyBool (CHR ''a'' \<in> set line))) []
     = (Inr (Some [''ab'', ''a'']), [])
   \<and> read_lines_default (\<lambda>p. Inr [CHR ''a'', CHR ''b'', CR, LF, CHR ''c'', LF, CHR ''a''])
      ''notes.txt'' []
     = (Inr (Some [''ab'', ''c'', ''a'']), [])"
  using read_lines_filters
    [where open_r = "\<lambda>p. Inr [CHR ''a'', CHR ''b'', CR, LF, CHR ''c'', LF, CHR ''a'']"
       and file_path = "''notes.txt''"
       and raw = "[CHR ''a'', CHR ''b'', CR, LF, CHR ''c'', LF, CHR ''a'']"
       and match_callback = "\<lambda>line. Inr (PyBool (CHR ''a'' \<in> set line))"
       and P = "\<lambda>line. CHR ''a'' \<in> set line" and out = "[]"]
  by (simp add: chomp_def LF_def CR_def)







subsection \<open>\<open>validate_bool\<close>\<close>

text \<open>
  Claim C10. Whatever function is wrapped and whatever it is called with: when the
  function returns a value that is not a boolean, the wrapper raises a \<open>TypeError\<close>
  that names the function; when it returns a boolean, the wrapper returns that boolean.
\<close>

theorem validate_bool_checks:
  assumes "call func args = Inr result"
  shows "(\<not> isinstance_bool result \<longrightarrow>
            call (validate_bool func) args =
              Inl (TypeError (func_name func @ '' must return a boolean value.'')))
       \<and> (isinstance_bool result \<longrightarrow> call (validate_bool func) args = Inr result)"
  using assms by (simp add: validate_bool_def wrapper_def)

theorem validate_bool_checks_witness:
  "call (validate_bool \<lparr>func_name = ''count'', call = (\<lambda>s. Inr (PyInt (int (length s))))\<rparr>) ''ab''
     = Inl (TypeError ''count must return a boolean value.'')
   \<and> call (validate_bool \<lparr>func_name = ''nonempty'', call = (\<lambda>s. Inr (PyBool (s \<noteq> [])))\<rparr>) ''ab''
     = Inr (PyBool True)"
proof -
  have a: "call \<lparr>func_name = ''count'', call = (\<lambda>s. Inr (PyInt (int (length s))))\<rparr> ''ab''
             = (Inr (PyInt 2) :: exn + pyval)"
    by simp
  have b: "call \<lparr>func_name = ''nonempty'', call = (\<lambda>s. Inr (PyBool (s \<noteq> [])))\<rparr> ''ab''
             = (Inr (PyBool True) :: exn + pyval)"
    by simp
  show ?thesis
    using validate_bool_checks [OF a] validate_bool_checks [OF b] by simp
qed


section \<open>Properties of the scaffolder\<close>

subsection \<open>Splitting text\<close>

lemma str_split_nonempty: "str_split sep s \<noteq> []"
  by (induction s) (auto split: list.splits)

lemma takeWhile_absent: "x \<notin> set xs \<Longrightarrow> takeWhile (\<lambda>c. c \<noteq> x) xs = xs"
  by (induction xs) auto

lemma takeWhile_until: "x \<notin> set a \<Longrightarrow> takeWhile (\<lambda>c. c \<noteq> x) (a @ x # b) = a"
  by (induction a) auto

lemma dropWhile_until: "x \<notin> set a \<Longrightarrow> dropWhile (\<lambda>c. c \<noteq> x) (a @ x # b) = x # b"
  by (induction a) auto

text \<open>\<open>s.split(sep)[0]\<close> is the text before the first separator.\<close>

lemma hd_str_split: "hd (str_split sep s) = takeWhile (\<lambda>c. c \<noteq> sep) s"
  by (induction s) (auto split: list.splits simp: str_split_nonempty)

lemma str_split_no_sep: "sep \<notin> set s \<Longrightarrow> str_split sep s = [s]"
  by (induction s) auto

lemma str_split_two: "sep \<in> set s \<Longrightarrow> 2 \<le> length (str_split sep s)"
proof (induction s)
  case Nil
  then show ?case by simp
next
  case (Cons c cs)
  show ?case
  proof (cases "c = sep")
    case True
    then show ?thesis
      using str_split_nonempty[of sep cs] by (cases "str_split sep cs") auto
  next
    case False
    with Cons show ?thesis by (auto split: list.splits)
  qed
qed

lemma last_str_split_append:
  "last (str_split sep (a @ sep # b)) = last (str_split sep b)"
proof (induction a)
  case Nil
  then show ?case by (simp add: str_split_nonempty)
next
  case (Cons c a)
  have "2 \<le> length (str_split sep (a @ sep # b))"
    by (rule str_split_two) simp
  then obtain w v ws where "str_split sep (a @ sep # b) = w # v # ws"
    by (cases "str_split sep (a @ sep # b)"; cases "tl (str_split sep (a @ sep # b))") auto
  with Cons show ?case by auto
qed

text \<open>\<open>s.split(sep)[-1]\<close> is the text after the last separator.\<close>

lemma last_str_split: "last (str_split sep s) = rev (takeWhile (\<lambda>c. c \<noteq> sep) (rev s))"
proof (cases "sep \<in> set s")
  case False
  then show ?thesis by (simp add: str_split_no_sep takeWhile_absent)
next
  case True
  then obtain a b where s: "s = a @ sep # b" and b: "sep \<notin> set b"
    by (auto dest: split_list_last)
  have "takeWhile (\<lambda>c. c \<noteq> sep) (rev b @ sep # rev a) = rev b"
    using b by (simp add: takeWhile_until)
  then show ?thesis
    using b by (simp add: s last_str_split_append str_split_no_sep)
qed

subsection \<open>The name of a cloned project\<close>

lemma project_name_clone:
  "project_name link True = takeWhile (\<lambda>c. c \<noteq> CHR ''.'') (final_segment link)"
  by (simp add: project_name_def final_segment_def hd_str_split last_str_split)

lemma strip_extension_one_dot:
  assumes "length (filter (\<lambda>c. c = CHR ''.'') seg) \<le> 1"
  shows "takeWhile (\<lambda>c. c \<noteq> CHR ''.'') seg = strip_extension seg"
proof (cases "CHR ''.'' \<in> set seg")
  case False
  then show ?thesis by (simp add: strip_extension_def takeWhile_absent)
next
  case True
  then obtain a b where s: "seg = a @ CHR ''.'' # b" and a: "CHR ''.'' \<notin> set a"
    by (auto dest: split_list_first)
  have "filter (\<lambda>c. c = CHR ''.'') b = []"
    using assms by (simp add: s)
  then have b: "CHR ''.'' \<notin> set b"
    by (auto simp: filter_empty_conv)
  have 1: "takeWhile (\<lambda>c. c \<noteq> CHR ''.'') seg = a"
    using a by (simp add: s takeWhile_until)
  have "dropWhile (\<lambda>c. c \<noteq> CHR ''.'') (rev b @ CHR ''.'' # rev a) = CHR ''.'' # rev a"
    using b by (simp add: dropWhile_until)
  then have 2: "strip_extension seg = a"
    by (simp add: strip_extension_def s)
  show ?thesis using 1 2 by simp
qed

text \<open>
  Claim C2, as stated, fails: the URL \<open>https://example.com/org/foo.bar.git\<close> is accepted
  by the URL pattern, its final path segment without the extension is \<open>foo.bar\<close>, and
  the name that \<open>create_project\<close> derives is \<open>foo\<close>.
\<close>

theorem project_name_counterexample:
  "match_url_pattern ''https://example.com/org/foo.bar.git''
   \<and> project_name ''https://example.com/org/foo.bar.git'' True = ''foo''
   \<and> spec_project_name ''https://example.com/org/foo.bar.git'' = ''foo.bar''"
  by (simp add: match_url_pattern_def chomp_def is_space_def LF_def project_name_def
        spec_project_name_def final_segment_def strip_extension_def)

text \<open>
  Claim C2, amended. For every link, the project name that \<open>create_project\<close> uses in
  clone mode is the final path segment of the link up to its first dot; when that
  segment holds at most one dot, this is the segment with its file extension stripped;
  \<open>https://example.com/org/bar.git\<close> yields \<open>bar\<close>.
\<close>

theorem project_name_first_dot:
  "project_name link True = takeWhile (\<lambda>c. c \<noteq> CHR ''.'') (final_segment link)
   \<and> (length (filter (\<lambda>c. c = CHR ''.'') (final_segment link)) \<le> 1
        \<longrightarrow> project_name link True = spec_project_name link)
   \<and> project_name ''https://example.com/org/bar.git'' True = ''bar''"
  using project_name_clone[of link] strip_extension_one_dot[of "final_segment link"]
  by (simp add: spec_project_name_def) (simp add: project_name_def)

theorem project_name_first_dot_witness:
  "match_url_pattern ''https://example.com/org/tool.git''
   \<and> length (filter (\<lambda>c. c = CHR ''.'') (final_segment ''https://example.com/org/tool.git'')) \<le> 1
   \<and> spec_project_name ''https://example.com/org/tool.git'' = ''tool''
   \<and> project_name ''https://example.com/org/tool.git'' True = ''tool''"
  using project_name_first_dot[of "''https://example.com/org/tool.git''"]
  by (simp add: match_url_pattern_def chomp_def is_space_def LF_def
        spec_project_name_def final_segment_def strip_extension_def)

subsection \<open>Running the statements\<close>

lemmas prog_defs = bind_def lift_def return_def path_exists_def error_exit_def
  print_action_def note_call_def except_OSError_def

lemmas path_defs = Path_def joinpath_def path_str_def parent_def lineage_def beneath_def

lemmas sample_defs = sample_config_def sample_os_def start_def roots_only_def
  foo_present_def foo_descriptor_only_def guarding_os_def failing_shell_os_def
  config_get_def CONFIG_CORE_def CONFIG_CORE_REPOSITORY_def CONFIG_CORE_WORKSPACE_def

lemma bind_lift_Inr: "bind (lift (Inr x)) f w = f x w"
  by (simp add: bind_def lift_def)

lemma bind_path_exists:
  "bind (path_exists p) f w = f (files w p \<noteq> None) (note_call (Exists p) w)"
  by (simp add: bind_def path_exists_def)

lemma bind_error_exit:
  "bind (error_exit msg) f w = (Inl (SystemExit 1), w\<lparr>logged := logged w @ [msg]\<rparr>)"
  by (simp add: bind_def error_exit_def)

subsection \<open>\<open>create_project\<close> on an existing project\<close>

text \<open>
  Claim C5. For every project identifier, by name or by link: when the configuration
  gives both roots and the target project directory exists, \<open>create_project\<close> logs the
  "project exists" message and exits with status 1; it has asked for the existence of
  the directory and done nothing else: the file system is as before, the descriptor is
  not written, and no command has run.
\<close>

theorem create_project_exists:
  assumes "config_get config CONFIG_CORE CONFIG_CORE_REPOSITORY = Inr repository"
    and "config_get config CONFIG_CORE CONFIG_CORE_WORKSPACE = Inr workspace"
    and "files w (joinpath (Path repository) (project_name name is_clone)) \<noteq> None"
  shows "create_project os name config is_clone w =
           (Inl (SystemExit 1),
            w\<lparr>logged := logged w @ [PROJECT_EXISTS_ERROR_MSG (project_name name is_clone)],
              calls := calls w @ [Exists (joinpath (Path repository) (project_name name is_clone))]\<rparr>)
       \<and> exit_status (fst (create_project os name config is_clone w)) = 1
       \<and> files (snd (create_project os name config is_clone w)) = files w
       \<and> commands (snd (create_project os name config is_clone w)) = commands w"
  using assms
  by (simp add: create_project_def Let_def bind_lift_Inr bind_path_exists bind_error_exit
        note_call_def)

theorem create_project_exists_witness:
  "exit_status (fst (create_project sample_os ''foo'' sample_config False (start foo_present))) = 1
   \<and> files (snd (create_project sample_os ''foo'' sample_config False (start foo_present)))
       = foo_present
   \<and> exit_status (fst (create_project sample_os ''https://example.com/org/foo.git'' sample_config
                         True (start foo_present))) = 1"
proof -
  have 1: "config_get sample_config CONFIG_CORE CONFIG_CORE_REPOSITORY = Inr ''/r''"
    by (simp add: sample_defs)
  have 2: "config_get sample_config CONFIG_CORE CONFIG_CORE_WORKSPACE = Inr ''/w''"
    by (simp add: sample_defs)
  have 3: "files (start foo_present) (joinpath (Path ''/r'') (project_name ''foo'' False)) \<noteq> None"
    by (simp add: sample_defs path_defs project_name_def)
  have 4: "files (start foo_present)
             (joinpath (Path ''/r'') (project_name ''https://example.com/org/foo.git'' True)) \<noteq> None"
    by (simp add: sample_defs path_defs project_name_def)
  show ?thesis
    using create_project_exists [OF 1 2 3, of sample_os] create_project_exists [OF 1 2 4, of sample_os]
    by (simp add: start_def)
qed

subsection \<open>\<open>clean_project\<close>\<close>

text \<open>
  Claim C8. The project directory being absent: when the workspace descriptor exists
  as a file that the operating system lets go, \<open>clean_project\<close> removes the descriptor
  and nothing else, logs both \<open>clean -\<close> lines and returns, so the process exits with
  status 0; when the descriptor is absent too, it logs the "not found" message, exits
  with status 1 and leaves the file system as it was.
\<close>

theorem clean_project_partial:
  fixes os name config w repository workspace
  defines "project_dir \<equiv> joinpath (Path repository) name"
    and "workspace_file \<equiv> joinpath (Path workspace) (name @ ''.code-workspace'')"
    and "r \<equiv> clean_project os name config w"
  assumes "config_get config CONFIG_CORE CONFIG_CORE_REPOSITORY = Inr repository"
    and "config_get config CONFIG_CORE CONFIG_CORE_WORKSPACE = Inr workspace"
    and "files w project_dir = None"
  shows "(files w workspace_file = Some (File t) \<and> \<not> refuses os (Unlink workspace_file) \<longrightarrow>
            fst r = Inr () \<and> exit_status (fst r) = 0
            \<and> files (snd r) = (files w)(workspace_file := None)
            \<and> logged (snd r) = logged w @ [''clean - '' @ path_str project_dir,
                                            ''clean - '' @ path_str workspace_file])
       \<and> (files w workspace_file = None \<longrightarrow>
            fst r = Inl (SystemExit 1) \<and> exit_status (fst r) = 1
            \<and> files (snd r) = files w
            \<and> logged (snd r) = logged w @ [FILE_NOT_FOUND_ERROR_MSG name])"
  using assms(4-)
  unfolding r_def project_dir_def workspace_file_def
  by (simp add: clean_project_def Let_def prog_defs unlink_def)

theorem clean_project_partial_witness:
  "exit_status (fst (clean_project sample_os ''foo'' sample_config (start foo_descriptor_only))) = 0
   \<and> files (snd (clean_project sample_os ''foo'' sample_config (start foo_descriptor_only)))
       = roots_only
   \<and> exit_status (fst (clean_project sample_os ''foo'' sample_config (start roots_only))) = 1
   \<and> files (snd (clean_project sample_os ''foo'' sample_config (start roots_only))) = roots_only"
proof -
  have 1: "config_get sample_config CONFIG_CORE CONFIG_CORE_REPOSITORY = Inr ''/r''"
    by (simp add: sample_defs)
  have 2: "config_get sample_config CONFIG_CORE CONFIG_CORE_WORKSPACE = Inr ''/w''"
    by (simp add: sample_defs)
  have 3: "files (start foo_descriptor_only) (joinpath (Path ''/r'') ''foo'') = None"
    by (simp add: sample_defs path_defs)
  have 4: "files (start roots_only) (joinpath (Path ''/r'') ''foo'') = None"
    by (simp add: sample_defs path_defs)
  have 5: "files (start foo_descriptor_only) (joinpath (Path ''/w'') (''foo'' @ ''.code-workspace''))
             = Some (File ''{}'')"
    by (simp add: sample_defs path_defs)
  have 6: "\<not> refuses sample_os (Unlink (joinpath (Path ''/w'') (''foo'' @ ''.code-workspace'')))"
    by (simp add: sample_defs)
  have 7: "files (start roots_only) (joinpath (Path ''/w'') (''foo'' @ ''.code-workspace'')) = None"
    by (simp add: sample_defs path_defs)
  have 8: "foo_descriptor_only(joinpath (Path ''/w'') (''foo'' @ ''.code-workspace'') := None)
             = roots_only"
    by (auto simp add: sample_defs path_defs)
  show ?thesis
    using clean_project_partial [OF 1 2 3, where os = sample_os and t = "''{}''"]
      clean_project_partial [OF 1 2 4, where os = sample_os] 5 6 7 8
    by (simp add: start_def)
qed




subsection \<open>\<open>main\<close>\<close>

text \<open>Reading the configuration changes nothing and touches one path only.\<close>

lemma read_config_effect:
  "files (snd (read_config os w)) = files w
   \<and> commands (snd (read_config os w)) = commands w
   \<and> printed (snd (read_config os w)) = printed w
   \<and> set (calls (snd (read_config os w))) \<subseteq>
       set (calls w) \<union> {Exists (joinpath (script_dir os) CONFIG_FILE),
                         ReadText (joinpath (script_dir os) CONFIG_FILE)}
   \<and> (\<forall>config. fst (read_config os w) = Inr config \<longrightarrow>
         logged (snd (read_config os w)) = logged w)
   \<and> (\<forall>e. fst (read_config os w) = Inl e \<longrightarrow> e = SystemExit 1)"
  by (auto simp add: read_config_def Let_def prog_defs config_read_def
        split: option.splits node.splits sum.splits)

lemma chomp_keeps_prefix:
  assumes "prefix p s" "chomp (drop (length p) s) \<noteq> []"
  shows "prefix p (chomp s)"
proof -
  from assms(1) obtain rest where s: "s = p @ rest" by (auto simp: prefix_def)
  with assms(2) have "rest \<noteq> []" by (auto simp: chomp_def)
  then have "butlast s = p @ butlast rest" by (simp add: s butlast_append)
  then show ?thesis by (simp add: chomp_def s)
qed

lemma scheme_has_colon:
  "\<forall>scheme \<in> set [''http://'', ''https://'', ''git://'']. CHR '':'' \<in> set scheme"
  by simp

lemma patterns_disjoint: "match_name_pattern s \<Longrightarrow> \<not> match_url_pattern s"
proof
  assume n: "match_name_pattern s" and u: "match_url_pattern s"
  from u obtain scheme where sch: "scheme \<in> set [''http://'', ''https://'', ''git://'']"
    and p: "prefix scheme s" and b: "chomp (drop (length scheme) s) \<noteq> []"
    unfolding match_url_pattern_def list_ex_iff Let_def by blast
  have "prefix scheme (chomp s)" using p b by (rule chomp_keeps_prefix)
  then have "set scheme \<subseteq> set (chomp s)" by (auto simp: prefix_def)
  moreover have "CHR '':'' \<in> set scheme" using sch scheme_has_colon by blast
  ultimately have "CHR '':'' \<in> set (chomp s)" by blast
  moreover have "\<forall>c \<in> set (chomp s). name_char c"
    using n by (simp add: match_name_pattern_def Let_def list_all_iff)
  ultimately have "name_char CHR '':''" by blast
  then show False by (simp add: name_char_def)
qed

text \<open>
  Claim C4, as stated, fails. The argument \<open>my project\<close> matches neither pattern, and
  yet the run calls into the file system twice, for the configuration file, before it
  looks at the argument; where the configuration file is missing, what is logged is
  that the file does not exist, not the usage message.
\<close>

theorem main_counterexample:
  "\<not> match_name_pattern ''my project'' \<and> \<not> match_url_pattern ''my project''
   \<and> calls (snd (main sample_os ''my project'' False (start roots_only)))
       = [Exists (PosixPath ''/'' [''app'', ''config.ini'']),
          ReadText (PosixPath ''/'' [''app'', ''config.ini''])]
   \<and> logged (snd (main sample_os ''my project'' False (start (\<lambda>p. None))))
       = [FILE_NOT_FOUND_ERROR_MSG ''/app/config.ini'']
   \<and> logged (snd (main sample_os ''my project'' False (start (\<lambda>p. None))))
       \<noteq> [''my project'' @ '': '' @ ARGS_PROJECT_HELP]"
  by (simp add: main_def read_config_def config_read_def Let_def prog_defs path_defs sample_defs
        CONFIG_FILE_def match_name_pattern_def match_url_pattern_def chomp_def name_char_def
        LF_def FILE_NOT_FOUND_ERROR_MSG_def ARGS_PROJECT_HELP_def)

text \<open>
  Claim C4, amended. Every run first tests for its configuration file and reads it,
  which changes nothing. The positional argument is then classified by pattern
  matching into bare name, URL or invalid, in that order; no text matches both
  patterns, and with \<open>--clean\<close> everything but a bare name is invalid. The
  classification comes before any change of the file system and before any command.
  On an invalid argument the process exits with status 1, has changed nothing, has run
  no command and has called the file system for the configuration file only; it logs
  the usage message when the configuration was read, and the configuration error
  otherwise.
\<close>

theorem main_classifies:
  fixes os args_project clean w
  defines "r \<equiv> main os args_project clean w"
    and "c \<equiv> read_config os w"
    and "config_path \<equiv> joinpath (script_dir os) CONFIG_FILE"
  shows "files (snd c) = files w \<and> commands (snd c) = commands w
       \<and> (match_name_pattern args_project \<longrightarrow>
            \<not> match_url_pattern args_project
            \<and> r = bind (read_config os)
                    (\<lambda>config. if clean then clean_project os args_project config
                               else create_project os args_project config False) w)
       \<and> (\<not> match_name_pattern args_project \<and> match_url_pattern args_project \<and> \<not> clean \<longrightarrow>
            r = bind (read_config os)
                  (\<lambda>config. create_project os args_project config True) w)
       \<and> (\<not> match_name_pattern args_project \<and> (clean \<or> \<not> match_url_pattern args_project) \<longrightarrow>
            fst r = Inl (SystemExit 1)
            \<and> files (snd r) = files w \<and> commands (snd r) = commands w
            \<and> set (calls (snd r)) \<subseteq> set (calls w) \<union> {Exists config_path, ReadText config_path}
            \<and> (\<forall>config. fst c = Inr config \<longrightarrow>
                  logged (snd r) = logged w @
                    [(if clean then ''error '' else []) @ args_project @ '': '' @ ARGS_PROJECT_HELP])
            \<and> (\<forall>e. fst c = Inl e \<longrightarrow> r = (Inl e, snd c)))"
proof -
  note e = read_config_effect[of os w]
  obtain res w' where rc: "read_config os w = (res, w')" by (cases "read_config os w")
  have 1: "files (snd c) = files w \<and> commands (snd c) = commands w"
    using e by (simp add: c_def)
  have 2: "r = bind (read_config os)
                    (\<lambda>config. if clean then clean_project os args_project config
                               else create_project os args_project config False) w"
    if "match_name_pattern args_project"
    using that by (simp add: r_def main_def bind_def split: prod.splits sum.splits)
  have 3: "r = bind (read_config os)
                  (\<lambda>config. create_project os args_project config True) w"
    if "\<not> match_name_pattern args_project" "match_url_pattern args_project" "\<not> clean"
    using that by (simp add: r_def main_def bind_def split: prod.splits sum.splits)
  have 4: "fst r = Inl (SystemExit 1)
            \<and> files (snd r) = files w \<and> commands (snd r) = commands w
            \<and> set (calls (snd r)) \<subseteq> set (calls w) \<union> {Exists config_path, ReadText config_path}
            \<and> (\<forall>config. fst c = Inr config \<longrightarrow>
                  logged (snd r) = logged w @
                    [(if clean then ''error '' else []) @ args_project @ '': '' @ ARGS_PROJECT_HELP])
            \<and> (\<forall>e. fst c = Inl e \<longrightarrow> r = (Inl e, snd c))"
    if "\<not> match_name_pattern args_project" "clean \<or> \<not> match_url_pattern args_project"
    using that e rc
    by (cases res) (auto simp add: r_def c_def config_path_def main_def bind_def error_exit_def)
  show ?thesis using 1 2 3 4 patterns_disjoint[of args_project] by blast
qed

theorem main_classifies_witness:
  "fst (main sample_os ''my project'' False (start roots_only)) = Inl (SystemExit 1)
   \<and> files (snd (main sample_os ''my project'' False (start roots_only))) = roots_only
   \<and> logged (snd (main sample_os ''my project'' False (start roots_only)))
       = [''my project'' @ '': '' @ ARGS_PROJECT_HELP]
   \<and> main sample_os ''foo'' True (start roots_only)
       = bind (read_config sample_os) (\<lambda>config. clean_project sample_os ''foo'' config)
           (start roots_only)
   \<and> main sample_os ''git://host/foo.git'' False (start roots_only)
       = bind (read_config sample_os)
           (\<lambda>config. create_project sample_os ''git://host/foo.git'' config True)
           (start roots_only)"
proof -
  have 1: "\<not> match_name_pattern ''my project''"
    by (simp add: match_name_pattern_def chomp_def name_char_def LF_def)
  have 2: "\<not> match_url_pattern ''my project''"
    by (simp add: match_url_pattern_def)
  have 3: "fst (read_config sample_os (start roots_only)) = Inr sample_config"
    by (simp add: read_config_def config_read_def Let_def prog_defs path_defs sample_defs
          CONFIG_FILE_def)
  have 4: "match_name_pattern ''foo''"
    by (simp add: match_name_pattern_def chomp_def name_char_def LF_def)
  have 5: "\<not> match_name_pattern ''git://host/foo.git''"
    by (simp add: match_name_pattern_def chomp_def name_char_def LF_def)
  have 6: "match_url_pattern ''git://host/foo.git''"
    by (simp add: match_url_pattern_def chomp_def is_space_def LF_def)
  show ?thesis
    using main_classifies [of sample_os "start roots_only" "''my project''" False]
      main_classifies [of sample_os "start roots_only" "''foo''" True]
      main_classifies [of sample_os "start roots_only" "''git://host/foo.git''" False]
      1 2 3 4 5 6
    by (simp add: start_def)
qed

subsection \<open>\<open>create_project\<close> on a new project\<close>

lemma bind_Inr_iff:
  "bind m f w = (Inr y, w'') \<longleftrightarrow> (\<exists>x w'. m w = (Inr x, w') \<and> f x w' = (Inr y, w''))"
  by (auto simp: bind_def split: prod.splits sum.splits)

lemma parent_joinpath_file:
  assumes "Path segment = PosixPath [] [x]"
  shows "parent (joinpath p segment) = p"
  using assms by (simp add: parent_def joinpath_def Let_def)

lemma Path_README: "Path ''README.md'' = PosixPath [] [''README.md'']"
  by (simp add: Path_def)

lemma Path_gitignore: "Path ''.gitignore'' = PosixPath [] [''.gitignore'']"
  by (simp add: Path_def)

lemma touch_ok:
  assumes "touch os p w = (Inr u, w')"
  shows "files w (parent p) = Some Dir
       \<and> (\<forall>q. q \<noteq> p \<longrightarrow> files w' q = files w q)
       \<and> commands w' = commands w \<and> printed w' = printed w"
  using assms
  by (auto simp: touch_def Let_def note_call_def split: if_splits option.splits node.splits)

lemma write_text_ok:
  assumes "write_text os p text w = (Inr u, w')"
  shows "files w' = (files w)(p \<mapsto> File text) \<and> files w p \<noteq> Some Dir
       \<and> printed w' = printed w \<and> commands w' = commands w"
  using assms
  by (auto simp: write_text_def Let_def note_call_def split: if_splits option.splits node.splits)

lemma print_action_ok:
  "print_action msg w = (Inr u, w') \<longleftrightarrow> w' = w\<lparr>logged := logged w @ [msg]\<rparr>"
  by (auto simp: print_action_def)

lemma create_project_tail:
  assumes "bind (write_text os workspace_file text) (\<lambda>_.
           bind (print_action a) (\<lambda>_. print_action b)) w1 = (Inr (), w')"
  shows "files w' = (files w1)(workspace_file \<mapsto> File text)
       \<and> files w1 workspace_file \<noteq> Some Dir"
proof -
  from assms obtain w2 where 1: "write_text os workspace_file text w1 = (Inr (), w2)"
    and 2: "bind (print_action a) (\<lambda>_. print_action b) w2 = (Inr (), w')"
    by (auto simp: bind_Inr_iff)
  from 2 have "files w' = files w2"
    by (auto simp: bind_Inr_iff print_action_ok)
  with write_text_ok[OF 1] show ?thesis by simp
qed

lemma create_project_init_steps:
  assumes "bind (mkdir_parents os project_dir) (\<lambda>_.
           bind (execute_command os command) (\<lambda>_.
           bind (touch os (joinpath project_dir ''README.md'')) (\<lambda>_.
           touch os (joinpath project_dir ''.gitignore'')))) w0 = (Inr (), w1)"
  shows "files w1 project_dir = Some Dir"
proof -
  from assms obtain wa wb wc where
    t1: "touch os (joinpath project_dir ''README.md'') wb = (Inr (), wc)"
    and t2: "touch os (joinpath project_dir ''.gitignore'') wc = (Inr (), w1)"
    by (auto simp: bind_Inr_iff)
  have p1: "parent (joinpath project_dir ''README.md'') = project_dir"
    by (rule parent_joinpath_file) (rule Path_README)
  have p2: "parent (joinpath project_dir ''.gitignore'') = project_dir"
    by (rule parent_joinpath_file) (rule Path_gitignore)
  have "files wc project_dir = Some Dir"
    using touch_ok[OF t2] p2 by simp
  moreover have "joinpath project_dir ''.gitignore'' \<noteq> project_dir"
    by (cases project_dir) (simp add: joinpath_def Path_gitignore)
  ultimately show ?thesis
    using touch_ok[OF t2] by metis
qed

lemmas fs_defs = mkdir_parents_def touch_def write_text_def execute_command_def

lemma str_nat_128: "str_nat 128 = ''128''"
  by code_simp

text \<open>
  Claim C6. Whenever \<open>create_project\<close> returns, the workspace descriptor holds the
  whole JSON document of the project, written with \<open>indent=4\<close>, whatever was at that
  path before; for a project created by name, the project directory is there. For
  project \<open>foo\<close> with repository root \<open>/r\<close> and workspace root \<open>/w\<close>, the directory is
  \<open>/r/foo\<close>, the descriptor is \<open>/w/foo.code-workspace\<close>, and the document, written
  without white space, is \<open>{"folders":[{"path":"/r/foo","name":"foo"}]}\<close>.
\<close>

theorem create_project_descriptor:
  fixes os name0 config is_clone w repository workspace
  defines "name \<equiv> project_name name0 is_clone"
    and "project_dir \<equiv> joinpath (Path repository) (project_name name0 is_clone)"
    and "workspace_file \<equiv>
           joinpath (Path workspace) (project_name name0 is_clone @ ''.code-workspace'')"
    and "r \<equiv> create_project os name0 config is_clone w"
  assumes "config_get config CONFIG_CORE CONFIG_CORE_REPOSITORY = Inr repository"
    and "config_get config CONFIG_CORE CONFIG_CORE_WORKSPACE = Inr workspace"
    and "fst r = Inr ()"
  shows "files (snd r) workspace_file =
           Some (File (json_dump_indent4 (workspace_data project_dir name)))
       \<and> (\<not> is_clone \<longrightarrow> files (snd r) project_dir = Some Dir)
       \<and> (name0 = ''foo'' \<and> repository = ''/r'' \<and> workspace = ''/w'' \<and> \<not> is_clone \<longrightarrow>
            path_str project_dir = ''/r/foo''
            \<and> path_str workspace_file = ''/w/foo.code-workspace''
            \<and> json_compact (workspace_data project_dir name) =
                 [CHR ''{'', CHR 0x22] @ ''folders'' @ [CHR 0x22] @ '':[{'' @ [CHR 0x22] @ ''path''
                 @ [CHR 0x22, CHR '':'', CHR 0x22] @ ''/r/foo'' @ [CHR 0x22, CHR '','', CHR 0x22]
                 @ ''name'' @ [CHR 0x22, CHR '':'', CHR 0x22] @ ''foo'' @ [CHR 0x22] @ ''}]}'')"
proof -
  let ?text = "json_dump_indent4 (workspace_data project_dir name)"
  let ?tail = "bind (write_text os workspace_file ?text) (\<lambda>_.
               bind (print_action (''add + '' @ path_str project_dir)) (\<lambda>_.
               print_action (''add + '' @ path_str workspace_file)))"
  let ?init = "bind (mkdir_parents os project_dir) (\<lambda>_.
               bind (execute_command os (''git init '' @ path_str project_dir)) (\<lambda>_.
               bind (touch os (joinpath project_dir ''README.md'')) (\<lambda>_.
               touch os (joinpath project_dir ''.gitignore''))))"
  obtain w' where r: "r = (Inr (), w')"
    using assms(7) by (cases r) auto
  have unfolded: "r = bind (path_exists project_dir) (\<lambda>found.
              bind (if \<not> found
                    then (if \<not> is_clone then ?init
                          else execute_command os
                                 (''git clone '' @ name0 @ '' '' @ path_str project_dir))
                    else error_exit (PROJECT_EXISTS_ERROR_MSG name)) (\<lambda>_. ?tail)) w"
    unfolding r_def create_project_def Let_def name_def project_dir_def workspace_file_def
      assms(5,6) bind_lift_Inr
    by (rule refl)
  from r unfolded obtain w0 w1 where
    body: "(if files w project_dir = None
            then (if \<not> is_clone then ?init
                  else execute_command os (''git clone '' @ name0 @ '' '' @ path_str project_dir))
            else error_exit (PROJECT_EXISTS_ERROR_MSG name)) w0 = (Inr (), w1)"
    and tail: "?tail w1 = (Inr (), w')"
    by (auto simp: bind_Inr_iff path_exists_def)
  have written: "files w' = (files w1)(workspace_file \<mapsto> File ?text)"
    and notdir: "files w1 workspace_file \<noteq> Some Dir"
    using create_project_tail[OF tail] by simp_all
  have 1: "files (snd r) workspace_file = Some (File ?text)"
    using written r by simp
  have 2: "files (snd r) project_dir = Some Dir" if "\<not> is_clone"
  proof -
    from body that have "?init w0 = (Inr (), w1)"
      by (auto simp: error_exit_def split: if_splits)
    then have d: "files w1 project_dir = Some Dir"
      by (rule create_project_init_steps)
    with notdir have "workspace_file \<noteq> project_dir" by auto
    with d written r show ?thesis by simp
  qed
  have 3: "path_str project_dir = ''/r/foo''
            \<and> path_str workspace_file = ''/w/foo.code-workspace''
            \<and> json_compact (workspace_data project_dir name) =
                 [CHR ''{'', CHR 0x22] @ ''folders'' @ [CHR 0x22] @ '':[{'' @ [CHR 0x22] @ ''path''
                 @ [CHR 0x22, CHR '':'', CHR 0x22] @ ''/r/foo'' @ [CHR 0x22, CHR '','', CHR 0x22]
                 @ ''name'' @ [CHR 0x22, CHR '':'', CHR 0x22] @ ''foo'' @ [CHR 0x22] @ ''}]}''"
    if "name0 = ''foo''" "repository = ''/r''" "workspace = ''/w''" "\<not> is_clone"
    using that
    by (simp add: project_dir_def workspace_file_def name_def project_name_def path_defs
          workspace_data_def json_string_def json_escape_def)
  show ?thesis using 1 2 3 by blast
qed

theorem create_project_descriptor_witness:
  "fst (create_project sample_os ''foo'' sample_config False (start foo_descriptor_only)) = Inr ()
   \<and> files (snd (create_project sample_os ''foo'' sample_config False (start foo_descriptor_only)))
        (PosixPath ''/'' [''r'', ''foo'']) = Some Dir
   \<and> files (snd (create_project sample_os ''foo'' sample_config False (start foo_descriptor_only)))
        (PosixPath ''/'' [''w'', ''foo.code-workspace''])
       = Some (File
           (''{'' @ [LF] @
            ''    '' @ [CHR 0x22] @ ''folders'' @ [CHR 0x22] @ '': ['' @ [LF] @
            ''        {'' @ [LF] @
            ''            '' @ [CHR 0x22] @ ''path'' @ [CHR 0x22] @ '': '' @ [CHR 0x22] @ ''/r/foo''
               @ [CHR 0x22] @ '','' @ [LF] @
            ''            '' @ [CHR 0x22] @ ''name'' @ [CHR 0x22] @ '': '' @ [CHR 0x22] @ ''foo''
               @ [CHR 0x22] @ [LF] @
            ''        }'' @ [LF] @
            ''    ]'' @ [LF] @
            ''}''))"
proof -
  have 1: "config_get sample_config CONFIG_CORE CONFIG_CORE_REPOSITORY = Inr ''/r''"
    by (simp add: sample_defs)
  have 2: "config_get sample_config CONFIG_CORE CONFIG_CORE_WORKSPACE = Inr ''/w''"
    by (simp add: sample_defs)
  have 3: "fst (create_project sample_os ''foo'' sample_config False (start foo_descriptor_only))
             = Inr ()"
    by (simp add: create_project_def project_name_def Let_def prog_defs fs_defs path_defs
          sample_defs)
  have 4: "json_dump_indent4 (workspace_data (PosixPath ''/'' [''r'', ''foo'']) ''foo'') =
            ''{'' @ [LF] @
            ''    '' @ [CHR 0x22] @ ''folders'' @ [CHR 0x22] @ '': ['' @ [LF] @
            ''        {'' @ [LF] @
            ''            '' @ [CHR 0x22] @ ''path'' @ [CHR 0x22] @ '': '' @ [CHR 0x22] @ ''/r/foo''
               @ [CHR 0x22] @ '','' @ [LF] @
            ''            '' @ [CHR 0x22] @ ''name'' @ [CHR 0x22] @ '': '' @ [CHR 0x22] @ ''foo''
               @ [CHR 0x22] @ [LF] @
            ''        }'' @ [LF] @
            ''    ]'' @ [LF] @
            ''}''"
    by (simp add: json_dump_indent4_def workspace_data_def json_string_def json_escape_def
          newline_indent_def path_str_def eval_nat_numeral)
  show ?thesis
    using create_project_descriptor [OF 1 2 3] 3 4
    by (simp add: project_name_def path_defs)
qed

subsection \<open>A version-control command that fails\<close>

lemma execute_command_failure:
  assumes "shell os command (files w) = (fs, status)" "status \<noteq> 0"
  shows "execute_command os command w =
           (Inr (), w\<lparr>files := fs, commands := commands w @ [command],
                      printed := printed w @
                        [''Command execution failed: '' @ str_CalledProcessError command status]\<rparr>)"
  using assms by (simp add: execute_command_def)

text \<open>A touch that goes through makes no directory and unmakes none.\<close>

lemma touch_succeeds:
  assumes "\<not> refuses os (Touch p)" "files w (parent p) = Some Dir"
  shows "\<exists>w'. touch os p w = (Inr (), w') \<and> printed w' = printed w
              \<and> (\<forall>q. q \<noteq> p \<longrightarrow> files w' q = files w q)
              \<and> (\<forall>q. (files w' q = Some Dir) = (files w q = Some Dir))"
  using assms by (auto simp add: touch_def Let_def note_call_def)

lemma tail_effect:
  fixes os workspace_file content a b
  defines "tail \<equiv> bind (write_text os workspace_file content) (\<lambda>_.
                  bind (print_action a) (\<lambda>_. print_action b))"
  shows "printed (snd (tail w1)) = printed w1
       \<and> OpenW workspace_file \<in> set (calls (snd (tail w1)))"
  unfolding tail_def
  by (simp add: bind_def write_text_def print_action_def note_call_def Let_def
        split: option.splits node.splits)

text \<open>Where the descriptor can be written, the rest of the function writes it and returns.\<close>

lemma tail_writes:
  fixes os workspace_file content a b
  defines "tail \<equiv> bind (write_text os workspace_file content) (\<lambda>_.
                  bind (print_action a) (\<lambda>_. print_action b))"
  assumes "\<not> refuses os (OpenW workspace_file)"
    and "files w1 (parent workspace_file) = Some Dir"
    and "files w1 workspace_file \<noteq> Some Dir"
  shows "fst (tail w1) = Inr ()
       \<and> files (snd (tail w1)) workspace_file = Some (File content)"
  using assms(2-) unfolding tail_def
  by (simp add: bind_def write_text_def print_action_def note_call_def Let_def
        split: option.splits node.splits)

text \<open>
  Claim C7. The project directory being absent and the version-control command exiting
  with a status other than 0: the failure is caught and printed, nothing else is
  printed, and the function goes on to open the descriptor for writing; where the file
  system that the command leaves lets the descriptor be written (its directory is
  there, no directory is in its place, the operating system does not refuse), the
  descriptor holds the JSON document of the project and the function returns. In clone
  mode this follows the command at once. In init mode the two placeholder files come
  first, and this holds where the project directory is still there and the operating
  system lets them be touched.
\<close>

theorem create_project_command_fails:
  fixes os name0 config is_clone w repository workspace
  defines "name \<equiv> project_name name0 is_clone"
    and "project_dir \<equiv> joinpath (Path repository) (project_name name0 is_clone)"
    and "workspace_file \<equiv>
           joinpath (Path workspace) (project_name name0 is_clone @ ''.code-workspace'')"
    and "r \<equiv> create_project os name0 config is_clone w"
    and "tail \<equiv>
           bind (write_text os
                   (joinpath (Path workspace) (project_name name0 is_clone @ ''.code-workspace''))
                   (json_dump_indent4
                      (workspace_data (joinpath (Path repository) (project_name name0 is_clone))
                         (project_name name0 is_clone)))) (\<lambda>_.
           bind (print_action
                   (''add + '' @ path_str (joinpath (Path repository)
                                              (project_name name0 is_clone)))) (\<lambda>_.
           print_action
             (''add + '' @ path_str (joinpath (Path workspace)
                                        (project_name name0 is_clone @ ''.code-workspace'')))))"
  assumes "config_get config CONFIG_CORE CONFIG_CORE_REPOSITORY = Inr repository"
    and "config_get config CONFIG_CORE CONFIG_CORE_WORKSPACE = Inr workspace"
    and "files w project_dir = None"
    and "status \<noteq> 0"
  shows "(is_clone \<and>
          shell os (''git clone '' @ name0 @ '' '' @ path_str project_dir) (files w) = (fs, status)
          \<longrightarrow>
            r = tail (w\<lparr>calls := calls w @ [Exists project_dir], files := fs,
                         commands := commands w @
                           [''git clone '' @ name0 @ '' '' @ path_str project_dir],
                         printed := printed w @
                           [''Command execution failed: '' @
                            str_CalledProcessError
                              (''git clone '' @ name0 @ '' '' @ path_str project_dir) status]\<rparr>)
            \<and> printed (snd r) = printed w @
                 [''Command execution failed: '' @
                  str_CalledProcessError
                    (''git clone '' @ name0 @ '' '' @ path_str project_dir) status]
            \<and> OpenW workspace_file \<in> set (calls (snd r))
            \<and> (\<not> refuses os (OpenW workspace_file) \<and> fs (parent workspace_file) = Some Dir
                 \<and> fs workspace_file \<noteq> Some Dir \<longrightarrow>
                 fst r = Inr ()
                 \<and> files (snd r) workspace_file =
                     Some (File (json_dump_indent4 (workspace_data project_dir name)))))
       \<and> (\<not> is_clone \<and>
          mkdir_parents os project_dir (note_call (Exists project_dir) w) = (Inr (), w1) \<and>
          shell os (''git init '' @ path_str project_dir) (files w1) = (fs, status) \<and>
          fs project_dir = Some Dir \<and>
          \<not> refuses os (Touch (joinpath project_dir ''README.md'')) \<and>
          \<not> refuses os (Touch (joinpath project_dir ''.gitignore''))
          \<longrightarrow>
            printed (snd r) = printed w @
                 [''Command execution failed: '' @
                  str_CalledProcessError (''git init '' @ path_str project_dir) status]
            \<and> OpenW workspace_file \<in> set (calls (snd r))
            \<and> (\<not> refuses os (OpenW workspace_file) \<and> fs (parent workspace_file) = Some Dir
                 \<and> fs workspace_file \<noteq> Some Dir \<longrightarrow>
                 fst r = Inr ()
                 \<and> files (snd r) workspace_file =
                     Some (File (json_dump_indent4 (workspace_data project_dir name)))))"
proof -
  let ?init = "bind (mkdir_parents os project_dir) (\<lambda>_.
               bind (execute_command os (''git init '' @ path_str project_dir)) (\<lambda>_.
               bind (touch os (joinpath project_dir ''README.md'')) (\<lambda>_.
               touch os (joinpath project_dir ''.gitignore''))))"
  have unfolded: "r = bind (path_exists project_dir) (\<lambda>found.
              bind (if \<not> found
                    then (if \<not> is_clone then ?init
                          else execute_command os
                                 (''git clone '' @ name0 @ '' '' @ path_str project_dir))
                    else error_exit (PROJECT_EXISTS_ERROR_MSG name)) (\<lambda>_. tail)) w"
    unfolding r_def create_project_def Let_def name_def project_dir_def workspace_file_def
      tail_def assms(6,7) bind_lift_Inr
    by (rule refl)
  have te: "\<And>w1. printed (snd (tail w1)) = printed w1
                 \<and> OpenW workspace_file \<in> set (calls (snd (tail w1)))"
    unfolding tail_def workspace_file_def by (rule tail_effect)
  have tw: "\<And>w1. \<not> refuses os (OpenW workspace_file) \<Longrightarrow>
                 files w1 (parent workspace_file) = Some Dir \<Longrightarrow>
                 files w1 workspace_file \<noteq> Some Dir \<Longrightarrow>
                 fst (tail w1) = Inr ()
                 \<and> files (snd (tail w1)) workspace_file =
                     Some (File (json_dump_indent4 (workspace_data project_dir name)))"
    unfolding tail_def workspace_file_def project_dir_def name_def by (rule tail_writes)
  have clone: "r = tail (w\<lparr>calls := calls w @ [Exists project_dir], files := fs,
                         commands := commands w @
                           [''git clone '' @ name0 @ '' '' @ path_str project_dir],
                         printed := printed w @
                           [''Command execution failed: '' @
                            str_CalledProcessError
                              (''git clone '' @ name0 @ '' '' @ path_str project_dir) status]\<rparr>)"
    if c: "is_clone"
      "shell os (''git clone '' @ name0 @ '' '' @ path_str project_dir) (files w) = (fs, status)"
  proof -
    have "execute_command os (''git clone '' @ name0 @ '' '' @ path_str project_dir)
            (note_call (Exists project_dir) w) =
          (Inr (), w\<lparr>calls := calls w @ [Exists project_dir], files := fs,
                         commands := commands w @
                           [''git clone '' @ name0 @ '' '' @ path_str project_dir],
                         printed := printed w @
                           [''Command execution failed: '' @
                            str_CalledProcessError
                              (''git clone '' @ name0 @ '' '' @ path_str project_dir) status]\<rparr>)"
      using execute_command_failure[of os _ "note_call (Exists project_dir) w" fs status]
        c(2) assms(9)
      by (simp add: note_call_def)
    then show ?thesis
      using c(1) assms(8)
      by (simp add: unfolded bind_def path_exists_def)
  qed
  have clone_written: "fst r = Inr ()
                 \<and> files (snd r) workspace_file =
                     Some (File (json_dump_indent4 (workspace_data project_dir name)))"
    if c: "is_clone"
      "shell os (''git clone '' @ name0 @ '' '' @ path_str project_dir) (files w) = (fs, status)"
      "\<not> refuses os (OpenW workspace_file)" "fs (parent workspace_file) = Some Dir"
      "fs workspace_file \<noteq> Some Dir"
    using clone[OF c(1,2)] tw[OF c(3), of
        "w\<lparr>calls := calls w @ [Exists project_dir], files := fs,
                         commands := commands w @
                           [''git clone '' @ name0 @ '' '' @ path_str project_dir],
                         printed := printed w @
                           [''Command execution failed: '' @
                            str_CalledProcessError
                              (''git clone '' @ name0 @ '' '' @ path_str project_dir) status]\<rparr>"]
      c(4,5)
    by simp
  have init: "printed (snd r) = printed w @
                 [''Command execution failed: '' @
                  str_CalledProcessError (''git init '' @ path_str project_dir) status]
            \<and> OpenW workspace_file \<in> set (calls (snd r))
            \<and> (\<not> refuses os (OpenW workspace_file) \<and> fs (parent workspace_file) = Some Dir
                 \<and> fs workspace_file \<noteq> Some Dir \<longrightarrow>
                 fst r = Inr ()
                 \<and> files (snd r) workspace_file =
                     Some (File (json_dump_indent4 (workspace_data project_dir name))))"
    if h: "\<not> is_clone"
      "mkdir_parents os project_dir (note_call (Exists project_dir) w) = (Inr (), w1)"
      "shell os (''git init '' @ path_str project_dir) (files w1) = (fs, status)"
      "fs project_dir = Some Dir"
      "\<not> refuses os (Touch (joinpath project_dir ''README.md''))"
      "\<not> refuses os (Touch (joinpath project_dir ''.gitignore''))"
  proof -
    let ?cmd = "''git init '' @ path_str project_dir"
    let ?w2 = "w1\<lparr>files := fs, commands := commands w1 @ [?cmd],
                   printed := printed w1 @
                     [''Command execution failed: '' @ str_CalledProcessError ?cmd status]\<rparr>"
    have pw1: "printed w1 = printed w"
      using h(2)
      by (auto simp: mkdir_parents_def Let_def note_call_def split: if_splits)
    have ex: "execute_command os ?cmd w1 = (Inr (), ?w2)"
      using h(3) assms(9) by (rule execute_command_failure)
    have p1: "parent (joinpath project_dir ''README.md'') = project_dir"
      by (rule parent_joinpath_file) (rule Path_README)
    have p2: "parent (joinpath project_dir ''.gitignore'') = project_dir"
      by (rule parent_joinpath_file) (rule Path_gitignore)
    obtain w3 where t1: "touch os (joinpath project_dir ''README.md'') ?w2 = (Inr (), w3)"
      and pr3: "printed w3 = printed ?w2"
      and d3: "\<forall>q. (files w3 q = Some Dir) = (files ?w2 q = Some Dir)"
      using touch_succeeds[OF h(5), of ?w2] h(4) p1 by auto
    have "files w3 project_dir = Some Dir"
      using d3 h(4) by simp
    then obtain w4 where t2: "touch os (joinpath project_dir ''.gitignore'') w3 = (Inr (), w4)"
      and pr4: "printed w4 = printed w3"
      and d4: "\<forall>q. (files w4 q = Some Dir) = (files w3 q = Some Dir)"
      using touch_succeeds[OF h(6), of w3] p2 by auto
    have dirs: "(files w4 q = Some Dir) = (fs q = Some Dir)" for q
      using d3 d4 by simp
    have rt: "r = tail w4"
      using h(1,2) assms(8) ex t1 t2
      by (simp add: unfolded bind_def path_exists_def)
    have "fst r = Inr ()
          \<and> files (snd r) workspace_file =
              Some (File (json_dump_indent4 (workspace_data project_dir name)))"
      if "\<not> refuses os (OpenW workspace_file)" "fs (parent workspace_file) = Some Dir"
        "fs workspace_file \<noteq> Some Dir"
      using tw[OF that(1), of w4] that(2,3) dirs rt by simp
    then show ?thesis
      using te[of w4] pr4 pr3 pw1 rt by simp
  qed
  show ?thesis
    using clone clone_written init te by simp
qed

theorem create_project_command_fails_witness:
  "printed (snd (create_project failing_shell_os ''https://example.com/org/bar.git'' sample_config
                   True (start roots_only)))
     = [''Command execution failed: Command '' @ [CHR 0x27]
          @ ''git clone https://example.com/org/bar.git /r/bar'' @ [CHR 0x27]
          @ '' returned non-zero exit status 128.'']
   \<and> fst (create_project failing_shell_os ''https://example.com/org/bar.git'' sample_config
            True (start roots_only)) = Inr ()
   \<and> files (snd (create_project failing_shell_os ''https://example.com/org/bar.git''
                    sample_config True (start roots_only)))
        (PosixPath ''/'' [''w'', ''bar.code-workspace''])
       = Some (File (json_dump_indent4 (workspace_data (PosixPath ''/'' [''r'', ''bar'']) ''bar'')))
   \<and> printed (snd (create_project failing_shell_os ''foo'' sample_config False (start roots_only)))
     = [''Command execution failed: Command '' @ [CHR 0x27]
          @ ''git init /r/foo'' @ [CHR 0x27] @ '' returned non-zero exit status 128.'']
   \<and> fst (create_project failing_shell_os ''foo'' sample_config False (start roots_only)) = Inr ()
   \<and> files (snd (create_project failing_shell_os ''foo'' sample_config False (start roots_only)))
        (PosixPath ''/'' [''w'', ''foo.code-workspace''])
       = Some (File (json_dump_indent4 (workspace_data (PosixPath ''/'' [''r'', ''foo'']) ''foo'')))"
proof -
  have 1: "config_get sample_config CONFIG_CORE CONFIG_CORE_REPOSITORY = Inr ''/r''"
    by (simp add: sample_defs)
  have 2: "config_get sample_config CONFIG_CORE CONFIG_CORE_WORKSPACE = Inr ''/w''"
    by (simp add: sample_defs)
  have 3: "files (start roots_only)
             (joinpath (Path ''/r'') (project_name ''https://example.com/org/bar.git'' True)) = None"
    by (simp add: sample_defs path_defs project_name_def)
  have 4: "files (start roots_only) (joinpath (Path ''/r'') (project_name ''foo'' False)) = None"
    by (simp add: sample_defs path_defs project_name_def)
  have 5: "(128::nat) \<noteq> 0" by simp
  have 6: "shell failing_shell_os c fs = (fs, 128)" for c fs
    by (simp add: sample_defs)
  let ?w0 = "note_call (Exists (joinpath (Path ''/r'') (project_name ''foo'' False)))
               (start roots_only)"
  let ?w1 = "snd (mkdir_parents failing_shell_os
                    (joinpath (Path ''/r'') (project_name ''foo'' False)) ?w0)"
  let ?bar = "joinpath (Path ''/w'')
                (project_name ''https://example.com/org/bar.git'' True @ ''.code-workspace'')"
  let ?foo = "joinpath (Path ''/w'') (project_name ''foo'' False @ ''.code-workspace'')"
  have 7: "mkdir_parents failing_shell_os (joinpath (Path ''/r'') (project_name ''foo'' False)) ?w0
             = (Inr (), ?w1)"
    by (simp add: mkdir_parents_def Let_def note_call_def sample_defs path_defs project_name_def)
  have 8: "files ?w1 (joinpath (Path ''/r'') (project_name ''foo'' False)) = Some Dir"
    by (simp add: mkdir_parents_def Let_def note_call_def sample_defs path_defs project_name_def)
  have 9: "\<not> refuses failing_shell_os c" for c
    by (simp add: sample_defs)
  have 10: "files (start roots_only) (parent ?bar) = Some Dir
            \<and> files (start roots_only) ?bar \<noteq> Some Dir"
    by (simp add: sample_defs path_defs project_name_def)
  have 11: "files ?w1 (parent ?foo) = Some Dir \<and> files ?w1 ?foo \<noteq> Some Dir"
    by (simp add: mkdir_parents_def Let_def note_call_def sample_defs path_defs project_name_def)
  have a: "True \<and>
           shell failing_shell_os
             (''git clone '' @ ''https://example.com/org/bar.git'' @ '' '' @
              path_str (joinpath (Path ''/r'')
                          (project_name ''https://example.com/org/bar.git'' True)))
             (files (start roots_only)) = (files (start roots_only), 128)"
    using 6 by simp
  have b: "\<not> False \<and>
           mkdir_parents failing_shell_os (joinpath (Path ''/r'') (project_name ''foo'' False)) ?w0
             = (Inr (), ?w1) \<and>
           shell failing_shell_os
             (''git init '' @ path_str (joinpath (Path ''/r'') (project_name ''foo'' False)))
             (files ?w1) = (files ?w1, 128) \<and>
           files ?w1 (joinpath (Path ''/r'') (project_name ''foo'' False)) = Some Dir \<and>
           \<not> refuses failing_shell_os
               (Touch (joinpath (joinpath (Path ''/r'') (project_name ''foo'' False)) ''README.md'')) \<and>
           \<not> refuses failing_shell_os
               (Touch (joinpath (joinpath (Path ''/r'') (project_name ''foo'' False)) ''.gitignore''))"
    using 6 7 8 9 by simp
  have c: "printed (snd (create_project failing_shell_os ''https://example.com/org/bar.git''
                           sample_config True (start roots_only)))
             = printed (start roots_only) @
                 [''Command execution failed: '' @
                  str_CalledProcessError
                    (''git clone '' @ ''https://example.com/org/bar.git'' @ '' '' @
                     path_str (joinpath (Path ''/r'')
                                 (project_name ''https://example.com/org/bar.git'' True))) 128]
           \<and> fst (create_project failing_shell_os ''https://example.com/org/bar.git''
                    sample_config True (start roots_only)) = Inr ()
           \<and> files (snd (create_project failing_shell_os ''https://example.com/org/bar.git''
                            sample_config True (start roots_only))) ?bar
               = Some (File (json_dump_indent4
                    (workspace_data
                       (joinpath (Path ''/r'')
                          (project_name ''https://example.com/org/bar.git'' True))
                       (project_name ''https://example.com/org/bar.git'' True))))"
    using create_project_command_fails
            [OF 1 2 3 5, where os = failing_shell_os and fs = "files (start roots_only)"]
          a 9 10
    by blast
  have d: "printed (snd (create_project failing_shell_os ''foo'' sample_config False
                           (start roots_only)))
             = printed (start roots_only) @
                 [''Command execution failed: '' @
                  str_CalledProcessError
                    (''git init '' @ path_str (joinpath (Path ''/r'') (project_name ''foo'' False)))
                    128]
           \<and> fst (create_project failing_shell_os ''foo'' sample_config False (start roots_only))
               = Inr ()
           \<and> files (snd (create_project failing_shell_os ''foo'' sample_config False
                            (start roots_only))) ?foo
               = Some (File (json_dump_indent4
                    (workspace_data (joinpath (Path ''/r'') (project_name ''foo'' False))
                       (project_name ''foo'' False))))"
    using create_project_command_fails
            [OF 1 2 4 5, where os = failing_shell_os and fs = "files ?w1" and ?w1.0 = ?w1]
          b 9 11
    by blast
  show ?thesis
    using c d
    by (simp add: project_name_def path_defs str_CalledProcessError_def str_nat_128 start_def)
qed

end
